theory Spec2Isabelle
  imports Main "HOL-Library.Code_Target_Numeral"
begin

section \<open>Request payloads\<close>

text \<open>
  A request body is a JSON object; its values are Python objects after
  \<^verbatim>\<open>request.get_json()\<close>. Floating point numbers are left out of the value type.
  Strings are lists of characters; a character stands for a code point below 256, so
  \<open>length\<close> is Python's \<^verbatim>\<open>len\<close> on such text.
\<close>

datatype jval =
    JNull
  | JBool bool
  | JInt int
  | JStr string
  | JList "jval list"
  | JDict "(string \<times> jval) list"

text \<open>
  A payload is the object's members as a list of pairs; \<open>map_of data key\<close> is
  \<^verbatim>\<open>data[key]\<close> and \<open>data = []\<close> is \<^verbatim>\<open>not data\<close>.
\<close>

type_synonym payload = "(string \<times> jval) list"

text \<open>The exceptions a handler body can raise; every handler catches all of them.\<close>

datatype py_exc = TypeError | ValueError | AttributeError | KeyError | NotFound | StoreError

text \<open>Python truthiness: \<^verbatim>\<open>not v\<close> is \<open>\<not> truthy v\<close>.\<close>

fun truthy :: "jval \<Rightarrow> bool" where
  "truthy JNull = False"
| "truthy (JBool b) = b"
| "truthy (JInt n) = (n \<noteq> 0)"
| "truthy (JStr s) = (s \<noteq> [])"
| "truthy (JList xs) = (xs \<noteq> [])"
| "truthy (JDict kvs) = (kvs \<noteq> [])"

text \<open>\<^verbatim>\<open>len(v)\<close>: defined on strings, lists and dicts, a \<^verbatim>\<open>TypeError\<close> otherwise.\<close>

fun py_len :: "jval \<Rightarrow> py_exc + nat" where
  "py_len (JStr s) = Inr (length s)"
| "py_len (JList xs) = Inr (length xs)"
| "py_len (JDict kvs) = Inr (length kvs)"
| "py_len JNull = Inl TypeError"
| "py_len (JBool b) = Inl TypeError"
| "py_len (JInt n) = Inl TypeError"

text \<open>\<^verbatim>\<open>field not in data or not data[field]\<close>\<close>

definition missing_or_empty :: "payload \<Rightarrow> string \<Rightarrow> bool" where
  "missing_or_empty data field =
     (case map_of data field of None \<Rightarrow> True | Some v \<Rightarrow> (if truthy v then False else True))"

text \<open>\<^verbatim>\<open>field in data and data[field]\<close>, returning the value when it holds.\<close>

definition present :: "payload \<Rightarrow> string \<Rightarrow> jval option" where
  "present data field =
     (case map_of data field of None \<Rightarrow> None | Some v \<Rightarrow> (if truthy v then Some v else None))"

section \<open>Validation (routes.py, lines 8 to 51)\<close>

definition lower_chars :: string where
  "lower_chars = ''abcdefghijklmnopqrstuvwxyz''"

definition upper_chars :: string where
  "upper_chars = ''ABCDEFGHIJKLMNOPQRSTUVWXYZ''"

definition digit_chars :: string where
  "digit_chars = ''0123456789''"

definition is_alpha :: "char \<Rightarrow> bool" where
  "is_alpha c = (c \<in> set (lower_chars @ upper_chars))"

text \<open>The class \<^verbatim>\<open>[a-zA-Z0-9._%+-]\<close> of the local part.\<close>

definition is_local_char :: "char \<Rightarrow> bool" where
  "is_local_char c = (c \<in> set (lower_chars @ upper_chars @ digit_chars @ ''._%+-''))"

text \<open>The class \<^verbatim>\<open>[a-zA-Z0-9.-]\<close> of the domain.\<close>

definition is_domain_char :: "char \<Rightarrow> bool" where
  "is_domain_char c = (c \<in> set (lower_chars @ upper_chars @ digit_chars @ ''.-''))"

text \<open>
  \<^verbatim>\<open>[a-zA-Z0-9.-]+\.[a-zA-Z]{2,}\<close> against a whole string. The last group has no
  dot, so the literal dot of the pattern is the last dot of the string.
\<close>

definition match_domain :: "string \<Rightarrow> bool" where
  "match_domain s =
     (let tld = rev (takeWhile (\<lambda>c. c \<noteq> CHR ''.'') (rev s));
          front = rev (dropWhile (\<lambda>c. c \<noteq> CHR ''.'') (rev s))
      in front \<noteq> [] \<and> butlast front \<noteq> [] \<and> list_all is_domain_char (butlast front)
         \<and> 2 \<le> length tld \<and> list_all is_alpha tld)"

text \<open>
  \<^verbatim>\<open>re.match(r'^[a-zA-Z0-9._%+-]+@[a-zA-Z0-9.-]+\.[a-zA-Z]{2,}$', email)\<close>. The local
  class has no \<^verbatim>\<open>@\<close>, so the local part is what precedes the first \<^verbatim>\<open>@\<close>; Python's
  \<^verbatim>\<open>$\<close> also matches just before one trailing newline.
\<close>

definition validate_email :: "string \<Rightarrow> bool" where
  "validate_email email =
     (let local = takeWhile (\<lambda>c. c \<noteq> CHR ''@'') email;
          rest = dropWhile (\<lambda>c. c \<noteq> CHR ''@'') email
      in local \<noteq> [] \<and> list_all is_local_char local \<and> rest \<noteq> [] \<and>
         (let dom = tl rest
          in if dom \<noteq> [] \<and> last dom = CHR 0x0A then match_domain (butlast dom)
             else match_domain dom))"

text \<open>The loop over \<^verbatim>\<open>required_fields\<close> (lines 17 to 19 and 34 to 36).\<close>

definition required_errors :: "payload \<Rightarrow> string list \<Rightarrow> string list" where
  "required_errors data required_fields =
     map (\<lambda>field. field @ '' is required'') (filter (missing_or_empty data) required_fields)"

text \<open>Line 21: \<^verbatim>\<open>re.match\<close> on a value that is not a string raises \<^verbatim>\<open>TypeError\<close>.\<close>

definition email_errors :: "payload \<Rightarrow> py_exc + string list" where
  "email_errors data =
     (case present data ''email'' of
        None \<Rightarrow> Inr []
      | Some (JStr s) \<Rightarrow> Inr (if validate_email s then [] else [''Invalid email format''])
      | Some _ \<Rightarrow> Inl TypeError)"

text \<open>Line 24.\<close>

definition username_errors :: "payload \<Rightarrow> py_exc + string list" where
  "username_errors data =
     (case present data ''username'' of
        None \<Rightarrow> Inr []
      | Some v \<Rightarrow>
          (case py_len v of
             Inl e \<Rightarrow> Inl e
           | Inr n \<Rightarrow> Inr (if n < 3 then [''Username must be at least 3 characters''] else [])))"

definition validate_user_data :: "payload \<Rightarrow> string list \<Rightarrow> py_exc + string list" where
  "validate_user_data data required_fields =
     (case email_errors data of
        Inl e \<Rightarrow> Inl e
      | Inr es1 \<Rightarrow>
          (case username_errors data of
             Inl e \<Rightarrow> Inl e
           | Inr es2 \<Rightarrow> Inr (required_errors data required_fields @ es1 @ es2)))"

section \<open>Enumerations and entities\<close>

text \<open>
  Modelled from the spec: \<^verbatim>\<open>models.py\<close> (the classes \<^verbatim>\<open>TaskStatus\<close>, \<^verbatim>\<open>TaskPriority\<close>,
  \<^verbatim>\<open>User\<close>, \<^verbatim>\<open>Task\<close>) is not among the sources. The enumerations, their string
  values, the fields and the defaults are those of section 3 of the specification.
\<close>

datatype TaskStatus = PENDING | IN_PROGRESS | COMPLETED

datatype TaskPriority = LOW | MEDIUM | HIGH

definition valid_statuses :: "string list" where
  "valid_statuses = [''pending'', ''in_progress'', ''completed'']"

definition valid_priorities :: "string list" where
  "valid_priorities = [''low'', ''medium'', ''high'']"

text \<open>\<^verbatim>\<open>TaskStatus(value)\<close>: the member with that value, \<^verbatim>\<open>ValueError\<close> when there is none.\<close>

definition TaskStatus_of :: "jval \<Rightarrow> py_exc + TaskStatus" where
  "TaskStatus_of v =
     (if v = JStr ''pending'' then Inr PENDING
      else if v = JStr ''in_progress'' then Inr IN_PROGRESS
      else if v = JStr ''completed'' then Inr COMPLETED
      else Inl ValueError)"

definition TaskPriority_of :: "jval \<Rightarrow> py_exc + TaskPriority" where
  "TaskPriority_of v =
     (if v = JStr ''low'' then Inr LOW
      else if v = JStr ''medium'' then Inr MEDIUM
      else if v = JStr ''high'' then Inr HIGH
      else Inl ValueError)"

text \<open>\<^verbatim>\<open>", ".join(xs)\<close>\<close>

fun join_comma :: "string list \<Rightarrow> string" where
  "join_comma [] = []"
| "join_comma [x] = x"
| "join_comma (x # y # ys) = x @ '', '' @ join_comma (y # ys)"

text \<open>Line 38. \<^verbatim>\<open>len\<close> is only reached for a truthy title.\<close>

definition title_errors :: "payload \<Rightarrow> py_exc + string list" where
  "title_errors data =
     (case present data ''title'' of
        None \<Rightarrow> Inr []
      | Some v \<Rightarrow>
          (case py_len v of
             Inl e \<Rightarrow> Inl e
           | Inr n \<Rightarrow> Inr (if n < 1 then [''Title cannot be empty''] else [])))"

text \<open>Lines 41 to 44: \<^verbatim>\<open>data['status'] not in valid_statuses\<close> compares by value.\<close>

definition status_errors :: "payload \<Rightarrow> string list" where
  "status_errors data =
     (case present data ''status'' of
        None \<Rightarrow> []
      | Some v \<Rightarrow>
          (if v \<in> set (map JStr valid_statuses) then []
           else [''Status must be one of: '' @ join_comma valid_statuses]))"

text \<open>Lines 46 to 49.\<close>

definition priority_errors :: "payload \<Rightarrow> string list" where
  "priority_errors data =
     (case present data ''priority'' of
        None \<Rightarrow> []
      | Some v \<Rightarrow>
          (if v \<in> set (map JStr valid_priorities) then []
           else [''Priority must be one of: '' @ join_comma valid_priorities]))"

definition validate_task_data :: "payload \<Rightarrow> string list \<Rightarrow> py_exc + string list" where
  "validate_task_data data required_fields =
     (case title_errors data of
        Inl e \<Rightarrow> Inl e
      | Inr es \<Rightarrow>
          Inr (required_errors data required_fields @ es @ status_errors data
               @ priority_errors data))"

text \<open>Timestamps are points on an integer time line.\<close>

type_synonym time = int

text \<open>
  A \<^verbatim>\<open>User\<close> row. The handlers only ever let a string reach \<^verbatim>\<open>username\<close> and
  \<^verbatim>\<open>email\<close> (see \<open>filter_by_text\<close> below), so the two columns are strings.
\<close>

record user =
  user_ident :: int
  username :: string
  email :: string
  password_hash :: string
  is_active :: bool
  user_created_at :: time
  user_updated_at :: time

text \<open>
  A \<^verbatim>\<open>Task\<close> object. \<^verbatim>\<open>title\<close> and \<^verbatim>\<open>description\<close> hold whatever the payload gave
  (\<^verbatim>\<open>task.title = data['title']\<close>); the store turns them into text, or refuses them,
  only when the object is flushed.
\<close>

record task =
  task_ident :: int
  title :: jval
  description :: jval
  status :: TaskStatus
  priority :: TaskPriority
  user_id :: int
  due_date :: "time option"
  completed_at :: "time option"
  task_created_at :: time
  task_updated_at :: time

section \<open>The store and the session\<close>

text \<open>
  Modelled from the spec: the store layer is not among the sources. Rows are kept in
  insertion order; identities are surrogate integers drawn from a counter; deleting a
  user deletes the tasks it owns (section 3).
\<close>

record store =
  user_rows :: "user list"
  task_rows :: "task list"
  next_user_ident :: int
  next_task_ident :: int

text \<open>
  \<open>committed\<close> is what is persisted; \<open>session\<close> is the unit of work of the request:
  the rows as the handler sees them, pending changes applied. A request starts with
  \<open>session = committed\<close>.
\<close>

record state =
  committed :: store
  session :: store

definition clean :: "state \<Rightarrow> bool" where
  "clean st = (session st = committed st)"

text \<open>
  \<^verbatim>\<open>db.session.commit()\<close> once the pending objects are flushed: what the session holds
  becomes what is persisted. (The flush of a task, which can fail, is \<open>flush_task\<close>
  below.)
\<close>

definition commit :: "state \<Rightarrow> state" where
  "commit st = st\<lparr>committed := session st\<rparr>"

text \<open>\<^verbatim>\<open>db.session.rollback()\<close>\<close>

definition rollback :: "state \<Rightarrow> state" where
  "rollback st = st\<lparr>session := committed st\<rparr>"

text \<open>\<^verbatim>\<open>Model.query.get(ident)\<close> with an integer identity.\<close>

definition get_user_row :: "store \<Rightarrow> int \<Rightarrow> user option" where
  "get_user_row s i = find (\<lambda>u. user_ident u = i) (user_rows s)"

definition get_task_row :: "store \<Rightarrow> int \<Rightarrow> task option" where
  "get_task_row s i = find (\<lambda>t. task_ident t = i) (task_rows s)"

text \<open>
  \<^verbatim>\<open>User.query.filter_by(column=value).first()\<close> on a string column: exact,
  case-sensitive equality; a value that is not a string is refused by the store.
\<close>

definition filter_by_text :: "(user \<Rightarrow> string) \<Rightarrow> store \<Rightarrow> jval \<Rightarrow> py_exc + user option" where
  "filter_by_text column s v =
     (case v of JStr x \<Rightarrow> Inr (find (\<lambda>u. column u = x) (user_rows s)) | _ \<Rightarrow> Inl StoreError)"

text \<open>Writing back a changed object of the session.\<close>

definition put_user :: "user \<Rightarrow> store \<Rightarrow> store" where
  "put_user u s =
     s\<lparr>user_rows := map (\<lambda>r. if user_ident r = user_ident u then u else r) (user_rows s)\<rparr>"

definition put_task :: "task \<Rightarrow> store \<Rightarrow> store" where
  "put_task t s =
     s\<lparr>task_rows := map (\<lambda>r. if task_ident r = task_ident t then t else r) (task_rows s)\<rparr>"

text \<open>\<^verbatim>\<open>db.session.add(obj)\<close> of a new object: it gets the next identity.\<close>

definition add_user :: "user \<Rightarrow> store \<Rightarrow> store" where
  "add_user u s =
     s\<lparr>user_rows := user_rows s @ [u\<lparr>user_ident := next_user_ident s\<rparr>],
       next_user_ident := next_user_ident s + 1\<rparr>"

definition add_task :: "task \<Rightarrow> store \<Rightarrow> store" where
  "add_task t s =
     s\<lparr>task_rows := task_rows s @ [t\<lparr>task_ident := next_task_ident s\<rparr>],
       next_task_ident := next_task_ident s + 1\<rparr>"

text \<open>\<^verbatim>\<open>db.session.delete(obj)\<close>; deleting a user cascades to its tasks.\<close>

definition remove_user :: "int \<Rightarrow> store \<Rightarrow> store" where
  "remove_user i s =
     s\<lparr>user_rows := filter (\<lambda>u. user_ident u \<noteq> i) (user_rows s),
       task_rows := filter (\<lambda>t. user_id t \<noteq> i) (task_rows s)\<rparr>"

definition remove_task :: "int \<Rightarrow> store \<Rightarrow> store" where
  "remove_task i s = s\<lparr>task_rows := filter (\<lambda>t. task_ident t \<noteq> i) (task_rows s)\<rparr>"

section \<open>Responses and control flow\<close>

record pagination =
  pg_page :: int
  pg_per_page :: int
  pg_total :: nat
  pg_pages :: nat

text \<open>
  The JSON bodies the handlers return. An entity stands for its \<^verbatim>\<open>to_dict()\<close>
  projection, which \<^verbatim>\<open>models.py\<close> defines.
\<close>

datatype body =
    Error string "string list"
  | Message string
  | UserJson user
  | TaskJson task
  | UserPage "user list" pagination
  | TaskPage "task list" pagination
  | UserTaskPage user "task list" pagination

type_synonym response = "nat \<times> body"

text \<open>
  What a block of statements does inside a handler: raise, return a response early, or
  fall through with the value it computed.
\<close>

datatype 'a flow = Raise py_exc | Return response | Next 'a

text \<open>\<^verbatim>\<open>data[key]\<close>\<close>

definition item :: "payload \<Rightarrow> string \<Rightarrow> py_exc + jval" where
  "item data key = (case map_of data key of None \<Rightarrow> Inl KeyError | Some v \<Rightarrow> Inr v)"

text \<open>
  The \<^verbatim>\<open>try: ... except Exception: db.session.rollback(); return ..., 500\<close> around the
  body of a writing handler. A response returned from inside the body leaves the session
  as it is. An exception is always followed by the rollback, which resets the session
  whatever it held, so the bodies below do not track the session at a raise.
\<close>

definition except_rollback :: "string \<Rightarrow> (py_exc + response) \<times> state \<Rightarrow> response \<times> state" where
  "except_rollback msg r =
     (case r of
        (Inl e, st) \<Rightarrow> ((500, Error msg []), rollback st)
      | (Inr resp, st) \<Rightarrow> (resp, st))"

text \<open>
  What a request reads besides its payload: the clock (\<^verbatim>\<open>datetime.utcnow()\<close>), the
  password hash behind \<^verbatim>\<open>set_password\<close> and \<^verbatim>\<open>datetime.fromisoformat\<close>, which gives
  \<open>None\<close> where Python raises \<^verbatim>\<open>ValueError\<close>. One request reads one clock value.

  The store and its driver are not among the sources, so what they make of a value of
  another type than the column's is a parameter too: \<open>store_text v\<close> is the text a
  text column keeps for a value \<open>v\<close> that is not a string, and \<open>store_ident v\<close> the
  identity an integer key column reads from a value \<open>v\<close> that is not an integer;
  \<open>None\<close> where the store refuses the value.
\<close>

record env =
  now :: time
  generate_password_hash :: "string \<Rightarrow> string"
  fromisoformat :: "string \<Rightarrow> time option"
  store_text :: "jval \<Rightarrow> string option"
  store_ident :: "jval \<Rightarrow> int option"

text \<open>A text column keeps a string as it is.\<close>

definition column_text :: "env \<Rightarrow> jval \<Rightarrow> string option" where
  "column_text env v = (case v of JStr s \<Rightarrow> Some s | _ \<Rightarrow> store_text env v)"

text \<open>An integer key is looked up as it is.\<close>

definition key_ident :: "env \<Rightarrow> jval \<Rightarrow> int option" where
  "key_ident env v = (case v of JInt i \<Rightarrow> Some i | _ \<Rightarrow> store_ident env v)"

text \<open>
  Modelled from the spec: the flush of a pending \<^verbatim>\<open>Task\<close> writes its title and
  description to text columns. The title is required (section 3), so a null title is
  refused; the description is optional, so null is kept. The row that is read back holds
  the text that was written.
\<close>

definition flush_task :: "env \<Rightarrow> task \<Rightarrow> py_exc + task" where
  "flush_task env t =
     (case (if title t = JNull then None else column_text env (title t)) of
        None \<Rightarrow> Inl StoreError
      | Some ttl \<Rightarrow>
          (if description t = JNull then Inr (t\<lparr>title := JStr ttl\<rparr>)
           else
             (case column_text env (description t) of
                None \<Rightarrow> Inl StoreError
              | Some d \<Rightarrow> Inr (t\<lparr>title := JStr ttl, description := JStr d\<rparr>))))"

text \<open>
  Modelled from the spec: \<^verbatim>\<open>User.set_password\<close> is defined in \<^verbatim>\<open>models.py\<close>. The hash is
  derived from the plaintext by a one-way function (section 3); hashing a value that is
  not a string raises.
\<close>

definition set_password :: "env \<Rightarrow> jval \<Rightarrow> user \<Rightarrow> py_exc + user" where
  "set_password env v u =
     (case v of
        JStr pw \<Rightarrow> Inr (u\<lparr>password_hash := generate_password_hash env pw\<rparr>)
      | _ \<Rightarrow> Inl AttributeError)"

section \<open>User endpoints (routes.py, lines 86 to 175)\<close>

text \<open>
  Modelled from the spec: the column defaults of a new \<^verbatim>\<open>User\<close> (active, both
  timestamps set at creation) come from \<^verbatim>\<open>models.py\<close>.
\<close>

definition new_user :: "env \<Rightarrow> string \<Rightarrow> string \<Rightarrow> user" where
  "new_user env name mail =
     \<lparr>user_ident = 0, username = name, email = mail, password_hash = [],
      is_active = True, user_created_at = now env, user_updated_at = now env\<rparr>"

text \<open>Lines 97 to 101: the two uniqueness lookups of \<^verbatim>\<open>create_user\<close>.\<close>

definition create_user_unique :: "payload \<Rightarrow> store \<Rightarrow> (string \<times> string) flow" where
  "create_user_unique data s =
     (case item data ''username'' of
        Inl e \<Rightarrow> Raise e
      | Inr vn \<Rightarrow>
          (case filter_by_text username s vn of
             Inl e \<Rightarrow> Raise e
           | Inr (Some other) \<Rightarrow> Return (409, Error ''Username already exists'' [])
           | Inr None \<Rightarrow>
               (case item data ''email'' of
                  Inl e \<Rightarrow> Raise e
                | Inr vm \<Rightarrow>
                    (case filter_by_text email s vm of
                       Inl e \<Rightarrow> Raise e
                     | Inr (Some other) \<Rightarrow> Return (409, Error ''Email already exists'' [])
                     | Inr None \<Rightarrow>
                         (case (vn, vm) of
                            (JStr name, JStr mail) \<Rightarrow> Next (name, mail)
                          | _ \<Rightarrow> Raise StoreError)))))"

definition create_user_body :: "env \<Rightarrow> payload \<Rightarrow> state \<Rightarrow> (py_exc + response) \<times> state" where
  "create_user_body env data st =
     (if data = [] then (Inr (400, Error ''No data provided'' []), st)
      else
        (case validate_user_data data [''username'', ''email'', ''password''] of
           Inl e \<Rightarrow> (Inl e, st)
         | Inr errors \<Rightarrow>
             (if errors \<noteq> [] then (Inr (400, Error ''Validation failed'' errors), st)
              else
                (case create_user_unique data (session st) of
                   Raise e \<Rightarrow> (Inl e, st)
                 | Return r \<Rightarrow> (Inr r, st)
                 | Next (name, mail) \<Rightarrow>
                     (case item data ''password'' of
                        Inl e \<Rightarrow> (Inl e, st)
                      | Inr pw \<Rightarrow>
                          (case set_password env pw (new_user env name mail) of
                             Inl e \<Rightarrow> (Inl e, st)
                           | Inr u \<Rightarrow>
                               (Inr (201, UserJson
                                  (u\<lparr>user_ident := next_user_ident (session st)\<rparr>)),
                                commit (st\<lparr>session := add_user u (session st)\<rparr>))))))))"

definition create_user :: "env \<Rightarrow> payload \<Rightarrow> state \<Rightarrow> response \<times> state" where
  "create_user env data st = except_rollback ''Failed to create user'' (create_user_body env data st)"

text \<open>Lines 133 to 136: a username other than the user's own is looked up, then assigned.\<close>

definition update_username :: "payload \<Rightarrow> user \<Rightarrow> store \<Rightarrow> user flow" where
  "update_username data u s =
     (case map_of data ''username'' of
        None \<Rightarrow> Next u
      | Some v \<Rightarrow>
          (if v = JStr (username u) then Next u
           else
             (case filter_by_text username s v of
                Inl e \<Rightarrow> Raise e
              | Inr (Some other) \<Rightarrow> Return (409, Error ''Username already exists'' [])
              | Inr None \<Rightarrow>
                  (case v of JStr name \<Rightarrow> Next (u\<lparr>username := name\<rparr>) | _ \<Rightarrow> Raise StoreError))))"

text \<open>Lines 138 to 141.\<close>

definition update_email :: "payload \<Rightarrow> user \<Rightarrow> store \<Rightarrow> user flow" where
  "update_email data u s =
     (case map_of data ''email'' of
        None \<Rightarrow> Next u
      | Some v \<Rightarrow>
          (if v = JStr (email u) then Next u
           else
             (case filter_by_text email s v of
                Inl e \<Rightarrow> Raise e
              | Inr (Some other) \<Rightarrow> Return (409, Error ''Email already exists'' [])
              | Inr None \<Rightarrow>
                  (case v of JStr mail \<Rightarrow> Next (u\<lparr>email := mail\<rparr>) | _ \<Rightarrow> Raise StoreError))))"

text \<open>Lines 143 to 149.\<close>

definition update_user_rest :: "env \<Rightarrow> payload \<Rightarrow> user \<Rightarrow> py_exc + user" where
  "update_user_rest env data u =
     (case (case present data ''password'' of None \<Rightarrow> Inr u | Some pw \<Rightarrow> set_password env pw u) of
        Inl e \<Rightarrow> Inl e
      | Inr u1 \<Rightarrow>
          (let u2 = (case map_of data ''is_active'' of None \<Rightarrow> u1 | Some v \<Rightarrow> u1\<lparr>is_active := truthy v\<rparr>)
           in Inr (u2\<lparr>user_updated_at := now env\<rparr>)))"

text \<open>
  \<^verbatim>\<open>get_or_404\<close> raises inside the \<^verbatim>\<open>try\<close>. Every assignment to \<^verbatim>\<open>user\<close> changes the
  object held by the session at once, so a response returned after an assignment leaves
  the changed object there.
\<close>

definition update_user_body :: "env \<Rightarrow> int \<Rightarrow> payload \<Rightarrow> state \<Rightarrow> (py_exc + response) \<times> state" where
  "update_user_body env uid data st =
     (case get_user_row (session st) uid of
        None \<Rightarrow> (Inl NotFound, st)
      | Some u \<Rightarrow>
          (if data = [] then (Inr (400, Error ''No data provided'' []), st)
           else
             (case validate_user_data data [] of
                Inl e \<Rightarrow> (Inl e, st)
              | Inr errors \<Rightarrow>
                  (if errors \<noteq> [] then (Inr (400, Error ''Validation failed'' errors), st)
                   else
                     (case update_username data u (session st) of
                        Raise e \<Rightarrow> (Inl e, st)
                      | Return r \<Rightarrow> (Inr r, st)
                      | Next u1 \<Rightarrow>
                          (let st1 = st\<lparr>session := put_user u1 (session st)\<rparr>
                           in (case update_email data u1 (session st1) of
                                 Raise e \<Rightarrow> (Inl e, st1)
                               | Return r \<Rightarrow> (Inr r, st1)
                               | Next u2 \<Rightarrow>
                                   (case update_user_rest env data u2 of
                                      Inl e \<Rightarrow> (Inl e, st1)
                                    | Inr u3 \<Rightarrow>
                                        (Inr (200, UserJson u3),
                                         commit (st\<lparr>session := put_user u3 (session st)\<rparr>))))))))))"

definition update_user :: "env \<Rightarrow> int \<Rightarrow> payload \<Rightarrow> state \<Rightarrow> response \<times> state" where
  "update_user env uid data st =
     except_rollback ''Failed to update user'' (update_user_body env uid data st)"

definition delete_user_body :: "int \<Rightarrow> state \<Rightarrow> (py_exc + response) \<times> state" where
  "delete_user_body uid st =
     (case get_user_row (session st) uid of
        None \<Rightarrow> (Inl NotFound, st)
      | Some u \<Rightarrow>
          (Inr (200, Message ''User deleted successfully''),
           commit (st\<lparr>session := remove_user uid (session st)\<rparr>)))"

definition delete_user :: "int \<Rightarrow> state \<Rightarrow> response \<times> state" where
  "delete_user uid st = except_rollback ''Failed to delete user'' (delete_user_body uid st)"

section \<open>Task endpoints (routes.py, lines 233 to 343)\<close>

text \<open>
  Modelled from the spec: the column defaults of a new \<^verbatim>\<open>Task\<close> (status pending,
  priority medium, no due date, no completion time) come from \<^verbatim>\<open>models.py\<close>.
\<close>

definition new_task :: "env \<Rightarrow> jval \<Rightarrow> jval \<Rightarrow> int \<Rightarrow> task" where
  "new_task env ttl descr uid =
     \<lparr>task_ident = 0, title = ttl, description = descr, status = PENDING, priority = MEDIUM,
      user_id = uid, due_date = None, completed_at = None,
      task_created_at = now env, task_updated_at = now env\<rparr>"

text \<open>
  Lines 244 to 246: \<^verbatim>\<open>User.query.get(data['user_id'])\<close>. The value goes to the store as
  the key of an integer column; the task is later written with the same value, which
  the store reads the same way.
\<close>

definition find_owner :: "env \<Rightarrow> payload \<Rightarrow> store \<Rightarrow> int flow" where
  "find_owner env data s =
     (case item data ''user_id'' of
        Inl e \<Rightarrow> Raise e
      | Inr v \<Rightarrow>
          (case key_ident env v of
             None \<Rightarrow> Raise StoreError
           | Some i \<Rightarrow>
               (case get_user_row s i of
                  None \<Rightarrow> Return (404, Error ''User not found'' [])
                | Some u \<Rightarrow> Next i)))"

text \<open>\<^verbatim>\<open>data.get('description', '')\<close>\<close>

definition get_description :: "payload \<Rightarrow> jval" where
  "get_description data = (case map_of data ''description'' of None \<Rightarrow> JStr [] | Some v \<Rightarrow> v)"

text \<open>Lines 254 and 255: the status of the payload is assigned, and nothing else.\<close>

definition create_status :: "payload \<Rightarrow> task \<Rightarrow> py_exc + task" where
  "create_status data t =
     (case map_of data ''status'' of
        None \<Rightarrow> Inr t
      | Some v \<Rightarrow> (case TaskStatus_of v of Inl e \<Rightarrow> Inl e | Inr new \<Rightarrow> Inr (t\<lparr>status := new\<rparr>)))"

text \<open>Lines 257 and 258, and again 305 and 306.\<close>

definition assign_priority :: "payload \<Rightarrow> task \<Rightarrow> py_exc + task" where
  "assign_priority data t =
     (case map_of data ''priority'' of
        None \<Rightarrow> Inr t
      | Some v \<Rightarrow> (case TaskPriority_of v of Inl e \<Rightarrow> Inl e | Inr new \<Rightarrow> Inr (t\<lparr>priority := new\<rparr>)))"

text \<open>\<^verbatim>\<open>s.replace('Z', '+00:00')\<close>\<close>

definition replace_Z :: "string \<Rightarrow> string" where
  "replace_Z s = concat (map (\<lambda>c. if c = CHR ''Z'' then ''+00:00'' else [c]) s)"

text \<open>
  \<^verbatim>\<open>datetime.fromisoformat(v.replace('Z', '+00:00'))\<close> inside \<^verbatim>\<open>try ... except
  ValueError\<close>: a value without \<^verbatim>\<open>replace\<close> raises \<^verbatim>\<open>AttributeError\<close>, which that
  \<^verbatim>\<open>except\<close> does not catch.
\<close>

definition parse_due_date :: "env \<Rightarrow> jval \<Rightarrow> time flow" where
  "parse_due_date env v =
     (case v of
        JStr s \<Rightarrow>
          (case fromisoformat env (replace_Z s) of
             None \<Rightarrow> Return (400, Error ''Invalid due_date format. Use ISO format.'' [])
           | Some d \<Rightarrow> Next d)
      | _ \<Rightarrow> Raise AttributeError)"

text \<open>Lines 260 to 264.\<close>

definition create_due_date :: "env \<Rightarrow> payload \<Rightarrow> task \<Rightarrow> task flow" where
  "create_due_date env data t =
     (case present data ''due_date'' of
        None \<Rightarrow> Next t
      | Some v \<Rightarrow>
          (case parse_due_date env v of
             Raise e \<Rightarrow> Raise e
           | Return r \<Rightarrow> Return r
           | Next d \<Rightarrow> Next (t\<lparr>due_date := Some d\<rparr>)))"

text \<open>
  Lines 248 to 264: the new object and the optional fields. The object joins the
  session only at \<^verbatim>\<open>db.session.add\<close>, after all of them; \<^verbatim>\<open>db.session.commit()\<close> then
  flushes it, and \<^verbatim>\<open>task.to_dict()\<close> reads it back.
\<close>

definition build_task :: "env \<Rightarrow> payload \<Rightarrow> int \<Rightarrow> task flow" where
  "build_task env data uid =
     (case item data ''title'' of
        Inl e \<Rightarrow> Raise e
      | Inr ttl \<Rightarrow>
          (case create_status data (new_task env ttl (get_description data) uid) of
             Inl e \<Rightarrow> Raise e
           | Inr t1 \<Rightarrow>
               (case assign_priority data t1 of
                  Inl e \<Rightarrow> Raise e
                | Inr t2 \<Rightarrow> create_due_date env data t2)))"

definition create_task_body :: "env \<Rightarrow> payload \<Rightarrow> state \<Rightarrow> (py_exc + response) \<times> state" where
  "create_task_body env data st =
     (if data = [] then (Inr (400, Error ''No data provided'' []), st)
      else
        (case validate_task_data data [''title'', ''user_id''] of
           Inl e \<Rightarrow> (Inl e, st)
         | Inr errors \<Rightarrow>
             (if errors \<noteq> [] then (Inr (400, Error ''Validation failed'' errors), st)
              else
                (case find_owner env data (session st) of
                   Raise e \<Rightarrow> (Inl e, st)
                 | Return r \<Rightarrow> (Inr r, st)
                 | Next uid \<Rightarrow>
                     (case build_task env data uid of
                        Raise e \<Rightarrow> (Inl e, st)
                      | Return r \<Rightarrow> (Inr r, st)
                      | Next t \<Rightarrow>
                          (case flush_task env t of
                             Inl e \<Rightarrow> (Inl e, st)
                           | Inr row \<Rightarrow>
                               (Inr (201, TaskJson
                                  (row\<lparr>task_ident := next_task_ident (session st)\<rparr>)),
                                commit (st\<lparr>session := add_task row (session st)\<rparr>))))))))"

definition create_task :: "env \<Rightarrow> payload \<Rightarrow> state \<Rightarrow> response \<times> state" where
  "create_task env data st = except_rollback ''Failed to create task'' (create_task_body env data st)"

text \<open>Lines 290 to 294.\<close>

definition update_title_description :: "payload \<Rightarrow> task \<Rightarrow> task" where
  "update_title_description data t =
     (let t1 = (case map_of data ''title'' of None \<Rightarrow> t | Some v \<Rightarrow> t\<lparr>title := v\<rparr>)
      in (case map_of data ''description'' of None \<Rightarrow> t1 | Some v \<Rightarrow> t1\<lparr>description := v\<rparr>))"

text \<open>Lines 300 to 303: the transition rule for \<^verbatim>\<open>completed_at\<close>.\<close>

definition transition :: "env \<Rightarrow> TaskStatus \<Rightarrow> task \<Rightarrow> task" where
  "transition env old_status t =
     (if old_status \<noteq> COMPLETED \<and> status t = COMPLETED then t\<lparr>completed_at := Some (now env)\<rparr>
      else if old_status = COMPLETED \<and> status t \<noteq> COMPLETED then t\<lparr>completed_at := None\<rparr>
      else t)"

text \<open>Lines 296 to 303.\<close>

definition update_status :: "env \<Rightarrow> payload \<Rightarrow> task \<Rightarrow> py_exc + task" where
  "update_status env data t =
     (case map_of data ''status'' of
        None \<Rightarrow> Inr t
      | Some v \<Rightarrow>
          (case TaskStatus_of v of
             Inl e \<Rightarrow> Inl e
           | Inr new \<Rightarrow> Inr (transition env (status t) (t\<lparr>status := new\<rparr>))))"

text \<open>Lines 308 to 315: an empty \<^verbatim>\<open>due_date\<close> clears the field.\<close>

definition update_due_date :: "env \<Rightarrow> payload \<Rightarrow> task \<Rightarrow> task flow" where
  "update_due_date env data t =
     (case map_of data ''due_date'' of
        None \<Rightarrow> Next t
      | Some v \<Rightarrow>
          (if truthy v then
             (case parse_due_date env v of
                Raise e \<Rightarrow> Raise e
              | Return r \<Rightarrow> Return r
              | Next d \<Rightarrow> Next (t\<lparr>due_date := Some d\<rparr>))
           else Next (t\<lparr>due_date := None\<rparr>)))"

text \<open>
  Every assignment to \<^verbatim>\<open>task\<close> changes the object held by the session at once. The
  response returned at line 313 comes after the assignments of lines 290 to 306, and
  nothing rolls them back there. \<^verbatim>\<open>db.session.commit()\<close> flushes the task, and
  \<^verbatim>\<open>task.to_dict()\<close> reads it back.
\<close>

definition update_task_body :: "env \<Rightarrow> int \<Rightarrow> payload \<Rightarrow> state \<Rightarrow> (py_exc + response) \<times> state" where
  "update_task_body env tid data st =
     (case get_task_row (session st) tid of
        None \<Rightarrow> (Inl NotFound, st)
      | Some t \<Rightarrow>
          (if data = [] then (Inr (400, Error ''No data provided'' []), st)
           else
             (case validate_task_data data [] of
                Inl e \<Rightarrow> (Inl e, st)
              | Inr errors \<Rightarrow>
                  (if errors \<noteq> [] then (Inr (400, Error ''Validation failed'' errors), st)
                   else
                     (case update_status env data (update_title_description data t) of
                        Inl e \<Rightarrow> (Inl e, st)
                      | Inr t1 \<Rightarrow>
                          (case assign_priority data t1 of
                             Inl e \<Rightarrow> (Inl e, st)
                           | Inr t2 \<Rightarrow>
                               (case update_due_date env data t2 of
                                  Raise e \<Rightarrow> (Inl e, st)
                                | Return r \<Rightarrow> (Inr r, st\<lparr>session := put_task t2 (session st)\<rparr>)
                                | Next t3 \<Rightarrow>
                                    (case flush_task env (t3\<lparr>task_updated_at := now env\<rparr>) of
                                       Inl e \<Rightarrow> (Inl e, st)
                                     | Inr row \<Rightarrow>
                                         (Inr (200, TaskJson row),
                                          commit (st\<lparr>session := put_task row (session st)\<rparr>))))))))))"

definition update_task :: "env \<Rightarrow> int \<Rightarrow> payload \<Rightarrow> state \<Rightarrow> response \<times> state" where
  "update_task env tid data st =
     except_rollback ''Failed to update task'' (update_task_body env tid data st)"

definition delete_task_body :: "int \<Rightarrow> state \<Rightarrow> (py_exc + response) \<times> state" where
  "delete_task_body tid st =
     (case get_task_row (session st) tid of
        None \<Rightarrow> (Inl NotFound, st)
      | Some t \<Rightarrow>
          (Inr (200, Message ''Task deleted successfully''),
           commit (st\<lparr>session := remove_task tid (session st)\<rparr>)))"

definition delete_task :: "int \<Rightarrow> state \<Rightarrow> response \<times> state" where
  "delete_task tid st = except_rollback ''Failed to delete task'' (delete_task_body tid st)"

section \<open>Listing (routes.py, lines 54 to 75, 178 to 222, 345 to 388; web_routes.py, lines 23 to 65)\<close>

type_synonym args = "string \<rightharpoonup> string"

text \<open>
  \<^verbatim>\<open>request.args.get(key, default, type=int)\<close> converts with Python's \<^verbatim>\<open>int\<close> and
  gives the default when the conversion raises. \<^verbatim>\<open>int\<close> on a string: surrounding
  white space is dropped, a sign may lead, then decimal digits, single underscores
  allowed between digits. White space is what Python's \<^verbatim>\<open>str.isspace\<close> accepts; below
  code point 256 that is 0x09 to 0x0D, 0x1C to 0x20, 0x85 and 0xA0. The only decimal
  digits below 256 are the ASCII ones. Python's limit on the number of digits is left
  out.
\<close>

definition is_space :: "char \<Rightarrow> bool" where
  "is_space c =
     (c \<in> set [CHR 0x09, CHR 0x0A, CHR 0x0B, CHR 0x0C, CHR 0x0D, CHR 0x1C, CHR 0x1D, CHR 0x1E,
                CHR 0x1F, CHR 0x20, CHR 0x85, CHR 0xA0])"

definition strip :: "string \<Rightarrow> string" where
  "strip s = rev (dropWhile is_space (rev (dropWhile is_space s)))"

definition digit_val :: "char \<Rightarrow> nat option" where
  "digit_val c = map_of (zip digit_chars [0, 1, 2, 3, 4, 5, 6, 7, 8, 9]) c"

fun py_digits :: "nat \<Rightarrow> string \<Rightarrow> nat option" where
  "py_digits acc [] = Some acc"
| "py_digits acc (c # cs) =
     (if c = CHR ''_'' then
        (case cs of
           [] \<Rightarrow> None
         | d # ds \<Rightarrow>
             (case digit_val d of None \<Rightarrow> None | Some v \<Rightarrow> py_digits (10 * acc + v) ds))
      else (case digit_val c of None \<Rightarrow> None | Some v \<Rightarrow> py_digits (10 * acc + v) cs))"

definition py_nat :: "string \<Rightarrow> nat option" where
  "py_nat s =
     (case s of
        [] \<Rightarrow> None
      | c # cs \<Rightarrow> (case digit_val c of None \<Rightarrow> None | Some v \<Rightarrow> py_digits v cs))"

definition py_int :: "string \<Rightarrow> int option" where
  "py_int s =
     (case strip s of
        [] \<Rightarrow> None
      | c # cs \<Rightarrow>
          (if c = CHR ''-'' then map_option (\<lambda>n. - int n) (py_nat cs)
           else if c = CHR ''+'' then map_option int (py_nat cs)
           else map_option int (py_nat (c # cs))))"

definition arg_int :: "args \<Rightarrow> string \<Rightarrow> int option" where
  "arg_int a key = (case a key of None \<Rightarrow> None | Some s \<Rightarrow> py_int s)"

definition arg_int_default :: "args \<Rightarrow> string \<Rightarrow> int \<Rightarrow> int" where
  "arg_int_default a key d = (case arg_int a key of None \<Rightarrow> d | Some n \<Rightarrow> n)"

text \<open>
  \<^verbatim>\<open>query.paginate(page=page, per_page=per_page, error_out=False)\<close> of Flask-SQLAlchemy,
  as its documentation gives it: without \<^verbatim>\<open>error_out\<close> a page below 1 becomes page 1
  and a page size below 1 becomes 20; the items are the rows of that window, \<^verbatim>\<open>total\<close>
  counts the rows of the query and \<^verbatim>\<open>pages\<close> is \<^verbatim>\<open>ceil(total / per_page)\<close>. The
  \<^verbatim>\<open>Pagination\<close> object it returns carries the page and the page size it used.

  The window is fetched with \<^verbatim>\<open>LIMIT per_page OFFSET (page - 1) * per_page\<close>. Python's
  integers are unbounded and the store's are 64-bit: an offset above \<open>max_offset\<close> makes
  the query raise.
\<close>

definition window_page :: "int \<Rightarrow> nat" where
  "window_page page = (if page < 1 then 1 else nat page)"

definition window_size :: "int \<Rightarrow> nat" where
  "window_size per_page = (if per_page < 1 then 20 else nat per_page)"

definition max_offset :: nat where
  "max_offset = 2 ^ 63 - 1"

definition page_info :: "int \<Rightarrow> int \<Rightarrow> nat \<Rightarrow> nat \<Rightarrow> pagination" where
  "page_info page per_page tot pages =
     \<lparr>pg_page = page, pg_per_page = per_page, pg_total = tot, pg_pages = pages\<rparr>"

definition paginate :: "'a list \<Rightarrow> int \<Rightarrow> int \<Rightarrow> py_exc + ('a list \<times> pagination)" where
  "paginate rows page per_page =
     (if max_offset < (window_page page - 1) * window_size per_page then Inl StoreError
      else
        Inr (take (window_size per_page)
               (drop ((window_page page - 1) * window_size per_page) rows),
             page_info (int (window_page page)) (int (window_size per_page)) (length rows)
               ((length rows + window_size per_page - 1) div window_size per_page)))"

text \<open>
  The listing handlers read the session and change nothing. The JSON handlers answer an
  exception with 500 (lines 73 to 75, 220 to 222, 386 to 388), \<^verbatim>\<open>get_or_404\<close> in
  \<^verbatim>\<open>get_user_tasks\<close> included; they report the \<^verbatim>\<open>page\<close> and \<^verbatim>\<open>per_page\<close> they read
  from the request, and \<^verbatim>\<open>total\<close> and \<^verbatim>\<open>pages\<close> of the \<^verbatim>\<open>Pagination\<close> object.
\<close>

definition get_users :: "args \<Rightarrow> state \<Rightarrow> response" where
  "get_users a st =
     (let page = arg_int_default a ''page'' 1;
          per_page = min (arg_int_default a ''per_page'' 10) 100
      in (case paginate (user_rows (session st)) page per_page of
            Inl e \<Rightarrow> (500, Error ''Failed to fetch users'' [])
          | Inr (items, users) \<Rightarrow>
              (200, UserPage items (page_info page per_page (pg_total users) (pg_pages users)))))"

text \<open>Lines 183, 189 and 190; \<^verbatim>\<open>if user_id:\<close> is false for \<^verbatim>\<open>None\<close> and for 0.\<close>

definition filter_user :: "args \<Rightarrow> task list \<Rightarrow> task list" where
  "filter_user a q =
     (case arg_int a ''user_id'' of
        None \<Rightarrow> q
      | Some i \<Rightarrow> (if i = 0 then q else filter (\<lambda>t. user_id t = i) q))"

text \<open>Lines 192 to 197; \<^verbatim>\<open>if status:\<close> is false for \<^verbatim>\<open>None\<close> and for the empty string.\<close>

definition filter_status :: "args \<Rightarrow> task list \<Rightarrow> task list flow" where
  "filter_status a q =
     (case a ''status'' of
        None \<Rightarrow> Next q
      | Some s \<Rightarrow>
          (if s = [] then Next q
           else
             (case TaskStatus_of (JStr s) of
                Inl e \<Rightarrow> Return (400, Error (''Invalid status: '' @ s) [])
              | Inr status_enum \<Rightarrow> Next (filter (\<lambda>t. status t = status_enum) q))))"

text \<open>Lines 199 to 204.\<close>

definition filter_priority :: "args \<Rightarrow> task list \<Rightarrow> task list flow" where
  "filter_priority a q =
     (case a ''priority'' of
        None \<Rightarrow> Next q
      | Some s \<Rightarrow>
          (if s = [] then Next q
           else
             (case TaskPriority_of (JStr s) of
                Inl e \<Rightarrow> Return (400, Error (''Invalid priority: '' @ s) [])
              | Inr priority_enum \<Rightarrow> Next (filter (\<lambda>t. priority t = priority_enum) q))))"

text \<open>\<^verbatim>\<open>order_by(Task.created_at.desc())\<close>; rows created at the same time keep their order.\<close>

definition newest_first :: "task list \<Rightarrow> task list" where
  "newest_first q = sort_key (\<lambda>t. - task_created_at t) q"

text \<open>Lines 192 to 218, shared by \<^verbatim>\<open>get_tasks\<close> and \<^verbatim>\<open>get_user_tasks\<close> (357 to 384).\<close>

definition filtered_page :: "args \<Rightarrow> task list \<Rightarrow> (task list \<times> pagination) flow" where
  "filtered_page a q =
     (let page = arg_int_default a ''page'' 1;
          per_page = min (arg_int_default a ''per_page'' 10) 100
      in (case filter_status a q of
            Raise e \<Rightarrow> Raise e
          | Return r \<Rightarrow> Return r
          | Next q1 \<Rightarrow>
              (case filter_priority a q1 of
                 Raise e \<Rightarrow> Raise e
               | Return r \<Rightarrow> Return r
               | Next q2 \<Rightarrow>
                   (case paginate (newest_first q2) page per_page of
                      Inl e \<Rightarrow> Raise e
                    | Inr (items, tasks) \<Rightarrow>
                        Next (items,
                          page_info page per_page (pg_total tasks) (pg_pages tasks))))))"

definition get_tasks :: "args \<Rightarrow> state \<Rightarrow> response" where
  "get_tasks a st =
     (case filtered_page a (filter_user a (task_rows (session st))) of
        Raise e \<Rightarrow> (500, Error ''Failed to fetch tasks'' [])
      | Return r \<Rightarrow> r
      | Next (items, info) \<Rightarrow> (200, TaskPage items info))"

definition get_user_tasks :: "int \<Rightarrow> args \<Rightarrow> state \<Rightarrow> response" where
  "get_user_tasks uid a st =
     (case get_user_row (session st) uid of
        None \<Rightarrow> (500, Error ''Failed to fetch user tasks'' [])
      | Some u \<Rightarrow>
          (case filtered_page a (filter (\<lambda>t. user_id t = uid) (task_rows (session st))) of
             Raise e \<Rightarrow> (500, Error ''Failed to fetch user tasks'' [])
           | Return r \<Rightarrow> r
           | Next (items, info) \<Rightarrow> (200, UserTaskPage u items info)))"

text \<open>
  The dashboard's task list. What it hands to the template: the messages it flashed,
  the items and the \<^verbatim>\<open>Pagination\<close> object. (It also passes the active users for a
  dropdown, which is left out here.) An invalid filter flashes a message and the listing
  goes on without that filter. The view has no \<^verbatim>\<open>try\<close>: an exception leaves it, and
  the result is \<open>Inl\<close>.
\<close>

record tasks_view =
  flashed :: "string list"
  view_items :: "task list"
  view_pagination :: pagination

text \<open>web_routes.py, lines 32 to 38 and 41 to 47.\<close>

definition web_filter_status :: "args \<Rightarrow> task list \<Rightarrow> string list \<times> task list" where
  "web_filter_status a q =
     (case a ''status'' of
        None \<Rightarrow> ([], q)
      | Some s \<Rightarrow>
          (if s = [] then ([], q)
           else
             (case TaskStatus_of (JStr s) of
                Inl e \<Rightarrow> ([''Invalid status filter''], q)
              | Inr status_enum \<Rightarrow> ([], filter (\<lambda>t. status t = status_enum) q))))"

definition web_filter_priority :: "args \<Rightarrow> task list \<Rightarrow> string list \<times> task list" where
  "web_filter_priority a q =
     (case a ''priority'' of
        None \<Rightarrow> ([], q)
      | Some s \<Rightarrow>
          (if s = [] then ([], q)
           else
             (case TaskPriority_of (JStr s) of
                Inl e \<Rightarrow> ([''Invalid priority filter''], q)
              | Inr priority_enum \<Rightarrow> ([], filter (\<lambda>t. priority t = priority_enum) q))))"

definition tasks :: "args \<Rightarrow> state \<Rightarrow> py_exc + tasks_view" where
  "tasks a st =
     (let page = arg_int_default a ''page'' 1;
          per_page = 10
      in (case web_filter_status a (task_rows (session st)) of
            (f1, q1) \<Rightarrow>
              (case web_filter_priority a q1 of
                 (f2, q2) \<Rightarrow>
                   (case paginate (newest_first (filter_user a q2)) page per_page of
                      Inl e \<Rightarrow> Inl e
                    | Inr (items, tasks_pagination) \<Rightarrow>
                        Inr \<lparr>flashed = f1 @ f2, view_items = items,
                             view_pagination = tasks_pagination\<rparr>))))"

section \<open>Well-formed stores and the words of the specification\<close>

text \<open>
  Modelled from the spec: what the store's constraints guarantee of the persisted rows
  (section 3 and section 6): identities, usernames and emails are unique.
\<close>

definition well_formed :: "store \<Rightarrow> bool" where
  "well_formed s =
     (distinct (map user_ident (user_rows s)) \<and> distinct (map username (user_rows s)) \<and>
      distinct (map email (user_rows s)) \<and> distinct (map task_ident (task_rows s)))"

text \<open>The payload leaves a field out, or gives the string \<open>cur\<close> for it.\<close>

definition own_or_absent :: "payload \<Rightarrow> string \<Rightarrow> string \<Rightarrow> bool" where
  "own_or_absent data key cur = (case map_of data key of None \<Rightarrow> True | Some v \<Rightarrow> v = JStr cur)"

text \<open>The payload leaves a field out, or gives a string for it.\<close>

definition text_or_absent :: "payload \<Rightarrow> string \<Rightarrow> bool" where
  "text_or_absent data key =
     (case map_of data key of None \<Rightarrow> True | Some (JStr x) \<Rightarrow> True | Some _ \<Rightarrow> False)"

text \<open>
  The payload gives, for a field, a string that the row of a user other than \<open>uid\<close>
  holds in that column.
\<close>

definition taken_by_other :: "(user \<Rightarrow> string) \<Rightarrow> payload \<Rightarrow> string \<Rightarrow> int \<Rightarrow> store \<Rightarrow> bool" where
  "taken_by_other column data key uid s =
     (case map_of data key of
        Some (JStr x) \<Rightarrow> list_ex (\<lambda>r. user_ident r \<noteq> uid \<and> column r = x) (user_rows s)
      | _ \<Rightarrow> False)"

text \<open>The payload gives no password, an empty one, or a string.\<close>

definition password_ok :: "payload \<Rightarrow> bool" where
  "password_ok data =
     (case present data ''password'' of None \<Rightarrow> True | Some (JStr x) \<Rightarrow> True | Some _ \<Rightarrow> False)"







text \<open>A filter string that is given, not empty and not a recognised value.\<close>

definition bad_filter :: "args \<Rightarrow> string \<Rightarrow> string list \<Rightarrow> bool" where
  "bad_filter a key vals =
     (case a key of None \<Rightarrow> False | Some s \<Rightarrow> (if s = [] then False else s \<notin> set vals))"



text \<open>The invariant of section 3: \<^verbatim>\<open>completed_at\<close> is set exactly when the status is completed.\<close>

definition completion_invariant :: "task \<Rightarrow> bool" where
  "completion_invariant t = ((completed_at t \<noteq> None) = (status t = COMPLETED))"

text \<open>A response that reports success.\<close>

definition success :: "response \<Rightarrow> bool" where
  "success r = (fst r = 200 \<or> fst r = 201)"

text \<open>
  The outcome of a handler body leaves the persisted rows of \<open>st\<close> alone, unless it is a
  response that reports success.
\<close>

definition keeps_persisted :: "state \<Rightarrow> (py_exc + response) \<times> state \<Rightarrow> bool" where
  "keeps_persisted st r =
     (case r of
        (Inl e, st') \<Rightarrow> committed st' = committed st
      | (Inr (code, b), st') \<Rightarrow> code = 200 \<or> code = 201 \<or> committed st' = committed st)"

section \<open>A small store to run the handlers on\<close>

text \<open>
  The sample store writes an integer to a text column as its decimal numeral and reads
  an unsigned decimal string as an identity; it refuses every other value of the wrong
  type.
\<close>

fun decimal_nat :: "nat \<Rightarrow> string" where
  "decimal_nat n =
     (if n < 10 then [digit_chars ! n]
      else decimal_nat (n div 10) @ [digit_chars ! (n mod 10)])"

definition decimal_text :: "jval \<Rightarrow> string option" where
  "decimal_text v =
     (case v of
        JInt n \<Rightarrow> Some (if n < 0 then CHR ''-'' # decimal_nat (nat (- n)) else decimal_nat (nat n))
      | _ \<Rightarrow> None)"

definition decimal_ident :: "jval \<Rightarrow> int option" where
  "decimal_ident v =
     (case v of
        JStr s \<Rightarrow>
          (if list_all (\<lambda>c. c \<in> set digit_chars) s then map_option int (py_nat s) else None)
      | _ \<Rightarrow> None)"

definition sample_env :: env where
  "sample_env =
     \<lparr>now = 1000, generate_password_hash = rev,
      fromisoformat = (\<lambda>s. if s = ''2030-01-01T00:00:00+00:00'' then Some 2000 else None),
      store_text = decimal_text, store_ident = decimal_ident\<rparr>"

definition alice :: user where
  "alice =
     \<lparr>user_ident = 1, username = ''alice'', email = ''alice@example.com'',
      password_hash = ''654321wp'', is_active = True, user_created_at = 1, user_updated_at = 1\<rparr>"

definition bob :: user where
  "bob =
     \<lparr>user_ident = 2, username = ''bob_manager'', email = ''bob@example.com'',
      password_hash = ''321drowssap'', is_active = True, user_created_at = 2,
      user_updated_at = 2\<rparr>"

definition write_docs :: task where
  "write_docs =
     \<lparr>task_ident = 1, title = JStr ''Write docs'', description = JStr [], status = PENDING,
      priority = MEDIUM, user_id = 1, due_date = None, completed_at = None,
      task_created_at = 10, task_updated_at = 10\<rparr>"

definition sample_store :: store where
  "sample_store =
     \<lparr>user_rows = [alice, bob], task_rows = [write_docs], next_user_ident = 3,
      next_task_ident = 2\<rparr>"

definition sample_state :: state where
  "sample_state = \<lparr>committed = sample_store, session = sample_store\<rparr>"

section \<open>Running the handlers\<close>

lemmas fixture_defs =
  sample_env_def alice_def bob_def write_docs_def sample_store_def sample_state_def
  decimal_text_def decimal_ident_def

lemmas validation_defs =
  validate_user_data_def email_errors_def username_errors_def required_errors_def
  missing_or_empty_def present_def validate_task_data_def title_errors_def status_errors_def
  priority_errors_def valid_statuses_def valid_priorities_def

lemmas store_defs =
  get_user_row_def get_task_row_def filter_by_text_def put_user_def put_task_def add_user_def
  add_task_def remove_user_def remove_task_def commit_def rollback_def flush_task_def
  column_text_def key_ident_def

lemmas user_handler_defs =
  update_user_def update_user_body_def update_username_def update_email_def
  update_user_rest_def set_password_def except_rollback_def item_def Let_def

lemmas task_handler_defs =
  create_task_def create_task_body_def find_owner_def build_task_def new_task_def
  get_description_def create_status_def assign_priority_def create_due_date_def
  parse_due_date_def update_task_def update_task_body_def update_title_description_def
  update_status_def transition_def update_due_date_def TaskStatus_of_def TaskPriority_of_def
  except_rollback_def item_def Let_def replace_Z_def

lemmas email_defs =
  validate_email_def match_domain_def is_local_char_def is_domain_char_def is_alpha_def
  lower_chars_def upper_chars_def digit_chars_def

lemmas parse_defs =
  arg_int_default_def arg_int_def py_int_def py_nat_def strip_def is_space_def digit_val_def
  digit_chars_def

lemmas listing_defs =
  get_tasks_def filtered_page_def filter_user_def filter_status_def filter_priority_def
  tasks_def web_filter_status_def web_filter_priority_def TaskStatus_of_def
  TaskPriority_of_def paginate_def window_size_def window_page_def page_info_def
  max_offset_def newest_first_def valid_statuses_def valid_priorities_def get_users_def

section \<open>The completion timestamp\<close>

text \<open>
  Claim C1: after any sequence of create-task and update-task operations a task's
  \<^verbatim>\<open>completed_at\<close> is set if and only if its status is completed; in particular a task
  created with status \<^verbatim>\<open>completed\<close> in the payload satisfies this.

  \<^verbatim>\<open>create_task\<close> assigns the status of the payload (lines 254 and 255) without the
  transition rule that \<^verbatim>\<open>update_task\<close> applies (lines 300 to 303). Creating a task
  with status \<^verbatim>\<open>completed\<close> for user 1 of the sample store answers 201 and persists a
  completed task whose \<^verbatim>\<open>completed_at\<close> is null.
\<close>

theorem create_task_completed_has_no_completed_at:
  "create_task sample_env
     [(''title'', JStr ''Ship it''), (''user_id'', JInt 1), (''status'', JStr ''completed'')]
     sample_state =
     ((201, TaskJson
         \<lparr>task_ident = 2, title = JStr ''Ship it'', description = JStr [], status = COMPLETED,
          priority = MEDIUM, user_id = 1, due_date = None, completed_at = None,
          task_created_at = 1000, task_updated_at = 1000\<rparr>),
      \<lparr>committed = sample_store
         \<lparr>task_rows := [write_docs,
            \<lparr>task_ident = 2, title = JStr ''Ship it'', description = JStr [],
             status = COMPLETED, priority = MEDIUM, user_id = 1, due_date = None,
             completed_at = None, task_created_at = 1000, task_updated_at = 1000\<rparr>],
          next_task_ident := 3\<rparr>,
       session = sample_store
         \<lparr>task_rows := [write_docs,
            \<lparr>task_ident = 2, title = JStr ''Ship it'', description = JStr [],
             status = COMPLETED, priority = MEDIUM, user_id = 1, due_date = None,
             completed_at = None, task_created_at = 1000, task_updated_at = 1000\<rparr>],
          next_task_ident := 3\<rparr>\<rparr>)"
  by (simp add: task_handler_defs validation_defs store_defs fixture_defs)

text \<open>Facts about the steps of \<^verbatim>\<open>update_task\<close>.\<close>

lemma find_task_ident:
  "find (\<lambda>t. task_ident t = i) xs = Some t \<Longrightarrow> task_ident t = i"
  by (induction xs) (auto split: if_splits)

lemma find_task_replaced:
  "find (\<lambda>t. task_ident t = i) xs = Some t \<Longrightarrow> task_ident t' = i \<Longrightarrow>
   find (\<lambda>r. task_ident r = i) (map (\<lambda>r. if task_ident r = i then t' else r) xs) = Some t'"
  by (induction xs) (auto split: if_splits)

lemma get_task_row_put_task:
  "get_task_row s i = Some t \<Longrightarrow> task_ident t' = i \<Longrightarrow> get_task_row (put_task t' s) i = Some t'"
  by (simp add: get_task_row_def put_task_def find_task_replaced)

lemma update_title_description_keeps:
  "status (update_title_description data t) = status t"
  "completed_at (update_title_description data t) = completed_at t"
  "task_ident (update_title_description data t) = task_ident t"
  by (simp_all add: update_title_description_def Let_def split: option.splits)

lemma assign_priority_keeps:
  "assign_priority data t = Inr t' \<Longrightarrow>
   status t' = status t \<and> completed_at t' = completed_at t \<and> task_ident t' = task_ident t"
  by (auto simp: assign_priority_def split: option.splits sum.splits)

lemma update_due_date_keeps:
  "update_due_date env data t = Next t' \<Longrightarrow>
   status t' = status t \<and> completed_at t' = completed_at t \<and> task_ident t' = task_ident t"
  by (auto simp: update_due_date_def split: option.splits if_splits flow.splits)

lemma parse_due_date_return: "parse_due_date env v = Return r \<Longrightarrow> fst r = 400"
  by (auto simp: parse_due_date_def split: jval.splits option.splits)

lemma update_due_date_return:
  "update_due_date env data t = Return r \<Longrightarrow> fst r = 400"
  by (auto simp: update_due_date_def split: option.splits if_splits flow.splits
      dest: parse_due_date_return)

lemma transition_rule:
  "status (transition env old t) = status t"
  "task_ident (transition env old t) = task_ident t"
  "completed_at (transition env old t) =
     (if old \<noteq> COMPLETED \<and> status t = COMPLETED then Some (now env)
      else if old = COMPLETED \<and> status t \<noteq> COMPLETED then None
      else completed_at t)"
  by (simp_all add: transition_def)

lemma update_status_rule:
  assumes "map_of data ''status'' = Some v" and "update_status env data t = Inr t'"
  shows "\<exists>new. TaskStatus_of v = Inr new \<and> status t' = new \<and> task_ident t' = task_ident t \<and>
     completed_at t' =
       (if status t \<noteq> COMPLETED \<and> new = COMPLETED then Some (now env)
        else if status t = COMPLETED \<and> new \<noteq> COMPLETED then None
        else completed_at t)"
proof (cases "TaskStatus_of v")
  case (Inl e)
  with assms show ?thesis by (simp add: update_status_def)
next
  case (Inr new)
  with assms have "t' = transition env (status t) (t\<lparr>status := new\<rparr>)"
    by (simp add: update_status_def)
  with Inr show ?thesis by (simp add: transition_rule)
qed

lemma flush_task_keeps:
  "flush_task env t = Inr row \<Longrightarrow>
   status row = status t \<and> completed_at row = completed_at t \<and> task_ident row = task_ident t"
  by (auto simp: flush_task_def split: option.splits if_splits)

lemma update_task_body_200:
  assumes run: "update_task_body env tid data st = (Inr (200, b), st')"
  shows "\<exists>t t1 t2 t3 row. get_task_row (session st) tid = Some t \<and>
     update_status env data (update_title_description data t) = Inr t1 \<and>
     assign_priority data t1 = Inr t2 \<and> update_due_date env data t2 = Next t3 \<and>
     flush_task env (t3\<lparr>task_updated_at := now env\<rparr>) = Inr row \<and>
     b = TaskJson row \<and> committed st' = put_task row (session st)"
proof -
  obtain t where t: "get_task_row (session st) tid = Some t"
    using run by (cases "get_task_row (session st) tid") (auto simp: update_task_body_def)
  have ne: "data \<noteq> []" using run t by (auto simp: update_task_body_def)
  have v: "validate_task_data data [] = Inr []"
    using run t ne by (cases "validate_task_data data []") (auto simp: update_task_body_def split: if_splits)
  obtain t1 where t1: "update_status env data (update_title_description data t) = Inr t1"
    using run t ne v
    by (cases "update_status env data (update_title_description data t)")
       (auto simp: update_task_body_def)
  obtain t2 where t2: "assign_priority data t1 = Inr t2"
    using run t ne v t1 by (cases "assign_priority data t1") (auto simp: update_task_body_def)
  obtain t3 where t3: "update_due_date env data t2 = Next t3"
    using run t ne v t1 t2
    by (cases "update_due_date env data t2")
       (auto simp: update_task_body_def dest: update_due_date_return)
  obtain row where row: "flush_task env (t3\<lparr>task_updated_at := now env\<rparr>) = Inr row"
    using run t ne v t1 t2 t3
    by (cases "flush_task env (t3\<lparr>task_updated_at := now env\<rparr>)")
       (auto simp: update_task_body_def)
  have "b = TaskJson row \<and> committed st' = put_task row (session st)"
    using run t ne v t1 t2 t3 row
    by (auto simp: update_task_body_def commit_def)
  with t t1 t2 t3 row show ?thesis by blast
qed

text \<open>
  Claim C2: for an update-task request whose payload has a \<^verbatim>\<open>status\<close> field, exactly one
  of three outcomes holds: from a status other than completed to completed,
  \<^verbatim>\<open>completed_at\<close> becomes the current time; from completed to another status, it is
  cleared; in any other transition (completed to completed included) it is unchanged.

  Stated of an update that succeeds (200): the payload's status is an enum value, the
  task returned is the task persisted, it has the new status, and its \<^verbatim>\<open>completed_at\<close>
  follows the three cases, where \<open>t\<close> is the task before the request.
\<close>

theorem update_task_transition:
  assumes row: "get_task_row (session st) tid = Some t"
      and key: "map_of data ''status'' = Some v"
      and ok: "update_task env tid data st = ((200, b), st')"
  shows "\<exists>new t'. TaskStatus_of v = Inr new \<and> b = TaskJson t' \<and>
           get_task_row (committed st') tid = Some t' \<and> status t' = new \<and>
           completed_at t' =
             (if status t \<noteq> COMPLETED \<and> new = COMPLETED then Some (now env)
              else if status t = COMPLETED \<and> new \<noteq> COMPLETED then None
              else completed_at t)"
proof -
  from ok have "update_task_body env tid data st = (Inr (200, b), st')"
    by (cases "update_task_body env tid data st")
       (auto simp: update_task_def except_rollback_def split: sum.splits)
  from update_task_body_200 [OF this] row obtain t1 t2 t3 t4 where
    t1: "update_status env data (update_title_description data t) = Inr t1" and
    t2: "assign_priority data t1 = Inr t2" and
    t3: "update_due_date env data t2 = Next t3" and
    t4: "flush_task env (t3\<lparr>task_updated_at := now env\<rparr>) = Inr t4" and
    b: "b = TaskJson t4" and
    st': "committed st' = put_task t4 (session st)"
    by auto
  have tid: "task_ident t = tid" using row unfolding get_task_row_def by (rule find_task_ident)
  from update_status_rule [OF key t1] obtain new where
    new: "TaskStatus_of v = Inr new" "status t1 = new" "task_ident t1 = task_ident t"
      "completed_at t1 =
       (if status t \<noteq> COMPLETED \<and> new = COMPLETED then Some (now env)
        else if status t = COMPLETED \<and> new \<noteq> COMPLETED then None
        else completed_at t)"
    by (auto simp: update_title_description_keeps)
  from assign_priority_keeps [OF t2] update_due_date_keeps [OF t3] flush_task_keeps [OF t4]
  have keep: "status t4 = status t1" "completed_at t4 = completed_at t1" "task_ident t4 = task_ident t1"
    by simp_all
  have "task_ident t4 = tid" using tid keep new by simp
  with row have "get_task_row (committed st') tid = Some t4"
    unfolding st' by (rule get_task_row_put_task)
  with new keep b show ?thesis by simp
qed


theorem update_task_transition_witness:
  "get_task_row (session sample_state) 1 = Some write_docs \<and>
   map_of [(''status'', JStr ''completed'')] ''status'' = Some (JStr ''completed'') \<and>
   update_task sample_env 1 [(''status'', JStr ''completed'')] sample_state =
     ((200, TaskJson (write_docs\<lparr>status := COMPLETED, completed_at := Some 1000,
                        task_updated_at := 1000\<rparr>)),
      \<lparr>committed = sample_store\<lparr>task_rows :=
         [write_docs\<lparr>status := COMPLETED, completed_at := Some 1000, task_updated_at := 1000\<rparr>]\<rparr>,
       session = sample_store\<lparr>task_rows :=
         [write_docs\<lparr>status := COMPLETED, completed_at := Some 1000, task_updated_at := 1000\<rparr>]\<rparr>\<rparr>) \<and>
   (\<exists>new t'. TaskStatus_of (JStr ''completed'') = Inr new \<and>
      get_task_row
        (sample_store\<lparr>task_rows :=
           [write_docs\<lparr>status := COMPLETED, completed_at := Some 1000,
              task_updated_at := 1000\<rparr>]\<rparr>) 1 = Some t' \<and>
      status t' = new \<and> completed_at t' = Some 1000)"
proof -
  have row: "get_task_row (session sample_state) 1 = Some write_docs"
    by (simp add: store_defs fixture_defs)
  have key: "map_of [(''status'', JStr ''completed'')] ''status'' = Some (JStr ''completed'')"
    by simp
  have run: "update_task sample_env 1 [(''status'', JStr ''completed'')] sample_state =
     ((200, TaskJson (write_docs\<lparr>status := COMPLETED, completed_at := Some 1000,
                        task_updated_at := 1000\<rparr>)),
      \<lparr>committed = sample_store\<lparr>task_rows :=
         [write_docs\<lparr>status := COMPLETED, completed_at := Some 1000, task_updated_at := 1000\<rparr>]\<rparr>,
       session = sample_store\<lparr>task_rows :=
         [write_docs\<lparr>status := COMPLETED, completed_at := Some 1000, task_updated_at := 1000\<rparr>]\<rparr>\<rparr>)"
    by (simp add: task_handler_defs validation_defs store_defs fixture_defs)
  have st: "status write_docs = PENDING" "now sample_env = 1000"
    by (simp_all add: fixture_defs)
  from update_task_transition [OF row key run] row key run st show ?thesis
    by auto
qed

text \<open>
  The transition rule keeps the invariant: an update that succeeds on a task that
  satisfies it persists a task that satisfies it.
\<close>

lemma transition_keeps_invariant:
  "completion_invariant t \<Longrightarrow> completion_invariant (transition env (status t) (t\<lparr>status := new\<rparr>))"
  by (auto simp: completion_invariant_def transition_def)

lemma update_status_keeps_invariant:
  "update_status env data t = Inr t' \<Longrightarrow> completion_invariant t \<Longrightarrow> completion_invariant t'"
  by (auto simp: update_status_def transition_keeps_invariant split: option.splits sum.splits)

lemma update_task_keeps_completion_invariant:
  assumes row: "get_task_row (session st) tid = Some t" and inv: "completion_invariant t"
    and ok: "update_task env tid data st = ((200, TaskJson t'), st')"
  shows "completion_invariant t' \<and> get_task_row (committed st') tid = Some t'"
proof -
  from ok have "update_task_body env tid data st = (Inr (200, TaskJson t'), st')"
    by (cases "update_task_body env tid data st")
       (auto simp: update_task_def except_rollback_def split: sum.splits)
  from update_task_body_200 [OF this] row obtain t1 t2 t3 where
    t1: "update_status env data (update_title_description data t) = Inr t1" and
    t2: "assign_priority data t1 = Inr t2" and
    t3: "update_due_date env data t2 = Next t3" and
    b: "flush_task env (t3\<lparr>task_updated_at := now env\<rparr>) = Inr t'" and
    st': "committed st' = put_task t' (session st)"
    by auto
  have "completion_invariant (update_title_description data t)"
    using inv by (simp add: completion_invariant_def update_title_description_keeps)
  from update_status_keeps_invariant [OF t1 this] have i1: "completion_invariant t1" .
  from assign_priority_keeps [OF t2] update_due_date_keeps [OF t3] flush_task_keeps [OF b] i1
  have i3: "completion_invariant t'"
    by (simp add: completion_invariant_def)
  have tid: "task_ident t = tid" using row unfolding get_task_row_def by (rule find_task_ident)
  have "task_ident t1 = task_ident t"
    using t1 by (auto simp: update_status_def transition_rule update_title_description_keeps
        split: option.splits sum.splits)
  with assign_priority_keeps [OF t2] update_due_date_keeps [OF t3] flush_task_keeps [OF b] tid
  have "task_ident t' = tid" by simp
  with row have "get_task_row (put_task t' (session st)) tid = Some t'"
    by (rule get_task_row_put_task)
  with i3 st' show ?thesis by simp
qed

section \<open>Validation of updates\<close>

text \<open>The length check does reject a username of one or two characters.\<close>

lemma short_username_rejected:
  assumes "map_of data ''username'' = Some (JStr s)" and "s \<noteq> []" and "length s < 3"
    and "validate_user_data data required_fields = Inr es"
  shows "es \<noteq> []"
  using assms
  by (auto simp: validate_user_data_def username_errors_def present_def split: sum.splits)


text \<open>
  Claim C6: a payload whose \<^verbatim>\<open>username\<close> is a string shorter than 3 characters, the
  empty string included even when \<^verbatim>\<open>username\<close> is not required, gets a non-empty
  error list, so that no create-user or update-user persists such a username.

  The length check of line 24 is guarded by the truthiness of the value, so the empty
  string passes when the field is not required: \<^verbatim>\<open>update_user\<close> validates with no
  required field, answers 200 and persists the empty username.
\<close>

theorem update_user_persists_empty_username:
  "validate_user_data [(''username'', JStr [])] [] = Inr [] \<and>
   update_user sample_env 1 [(''username'', JStr [])] sample_state =
     ((200, UserJson (alice\<lparr>username := [], user_updated_at := 1000\<rparr>)),
      \<lparr>committed =
         sample_store\<lparr>user_rows := [alice\<lparr>username := [], user_updated_at := 1000\<rparr>, bob]\<rparr>,
       session =
         sample_store\<lparr>user_rows := [alice\<lparr>username := [], user_updated_at := 1000\<rparr>, bob]\<rparr>\<rparr>)"
  by (simp add: user_handler_defs validation_defs store_defs fixture_defs)

text \<open>
  Claim C7: a payload whose \<^verbatim>\<open>title\<close> is the empty string gets a non-empty error list
  even when \<^verbatim>\<open>title\<close> is not required, so that an update-task request cannot set a
  title to the empty string.

  Line 38 asks for a truthy title of length below 1, which no string is: the message
  \<^verbatim>\<open>Title cannot be empty\<close> is never produced for a string. \<^verbatim>\<open>update_task\<close> validates
  with no required field, answers 200 and persists the empty title.
\<close>

theorem update_task_persists_empty_title:
  "validate_task_data [(''title'', JStr [])] [] = Inr [] \<and>
   update_task sample_env 1 [(''title'', JStr [])] sample_state =
     ((200, TaskJson (write_docs\<lparr>title := JStr [], task_updated_at := 1000\<rparr>)),
      \<lparr>committed =
         sample_store\<lparr>task_rows := [write_docs\<lparr>title := JStr [], task_updated_at := 1000\<rparr>]\<rparr>,
       session =
         sample_store\<lparr>task_rows := [write_docs\<lparr>title := JStr [], task_updated_at := 1000\<rparr>]\<rparr>\<rparr>)"
  by (simp add: task_handler_defs validation_defs store_defs fixture_defs)

section \<open>Errors and pending changes\<close>

text \<open>
  No write operation that answers with an error changes the persisted rows: only
  \<^verbatim>\<open>commit\<close> does, and it is followed by a 200 or a 201.
\<close>

lemma keeps_commit:
  "keeps_persisted st (Inr (200, b), st1)" "keeps_persisted st (Inr (201, b), st1)"
  by (simp_all add: keeps_persisted_def)

lemma keeps_same: "keeps_persisted st (Inl e, st)" "keeps_persisted st (Inr r, st)"
  by (auto simp: keeps_persisted_def split: prod.splits)

lemma keeps_session:
  "keeps_persisted st (Inl e, st\<lparr>session := s\<rparr>)" "keeps_persisted st (Inr r, st\<lparr>session := s\<rparr>)"
  by (auto simp: keeps_persisted_def split: prod.splits)

lemma create_user_body_keeps: "keeps_persisted st (create_user_body env data st)"
  by (auto simp: create_user_body_def Let_def keeps_same keeps_commit
      split: sum.splits flow.splits prod.splits)

lemma update_user_body_keeps: "keeps_persisted st (update_user_body env uid data st)"
  by (auto simp: update_user_body_def Let_def keeps_same keeps_session keeps_commit
      split: option.splits sum.splits flow.splits)

lemma delete_user_body_keeps: "keeps_persisted st (delete_user_body uid st)"
  by (auto simp: delete_user_body_def Let_def keeps_same keeps_commit split: option.splits)

lemma create_task_body_keeps: "keeps_persisted st (create_task_body env data st)"
  by (auto simp: create_task_body_def Let_def keeps_same keeps_commit
      split: sum.splits flow.splits)

lemma update_task_body_keeps: "keeps_persisted st (update_task_body env tid data st)"
  by (auto simp: update_task_body_def Let_def keeps_same keeps_session keeps_commit
      split: option.splits sum.splits flow.splits)

lemma delete_task_body_keeps: "keeps_persisted st (delete_task_body tid st)"
  by (auto simp: delete_task_body_def Let_def keeps_same keeps_commit split: option.splits)

lemma except_rollback_keeps:
  assumes "keeps_persisted st r"
  shows "success (fst (except_rollback msg r)) \<or>
         committed (snd (except_rollback msg r)) = committed st"
  using assms
  by (auto simp: keeps_persisted_def success_def except_rollback_def rollback_def
      split: prod.splits sum.splits)

lemma write_error_keeps_persisted:
  "(success (fst (create_user env data st)) \<or>
      committed (snd (create_user env data st)) = committed st) \<and>
   (success (fst (update_user env uid data st)) \<or>
      committed (snd (update_user env uid data st)) = committed st) \<and>
   (success (fst (delete_user uid st)) \<or>
      committed (snd (delete_user uid st)) = committed st) \<and>
   (success (fst (create_task env data st)) \<or>
      committed (snd (create_task env data st)) = committed st) \<and>
   (success (fst (update_task env tid data st)) \<or>
      committed (snd (update_task env tid data st)) = committed st) \<and>
   (success (fst (delete_task tid st)) \<or>
      committed (snd (delete_task tid st)) = committed st)"
  unfolding create_user_def update_user_def delete_user_def create_task_def update_task_def
    delete_task_def
  by (intro conjI except_rollback_keeps create_user_body_keeps update_user_body_keeps
      delete_user_body_keeps create_task_body_keeps update_task_body_keeps
      delete_task_body_keeps)

text \<open>
  \<^verbatim>\<open>update_user\<close> returns the 409 of line 140 after line 136 has assigned the new
  username: the session keeps it.
\<close>

lemma update_user_conflict_keeps_pending_username:
  "update_user sample_env 1
     [(''username'', JStr ''alice2''), (''email'', JStr ''bob@example.com'')] sample_state =
     ((409, Error ''Email already exists'' []),
      \<lparr>committed = sample_store,
       session = sample_store\<lparr>user_rows := [alice\<lparr>username := ''alice2''\<rparr>, bob]\<rparr>\<rparr>)"
  by (simp add: user_handler_defs validation_defs email_defs store_defs fixture_defs)


text \<open>
  Claim C5: whenever a write operation returns an error response, the persisted state
  and the pending entity state are what they were before the request, also on the
  update-task path where an invalid \<^verbatim>\<open>due_date\<close> is detected after other fields were
  processed.

  The handlers roll back in their \<^verbatim>\<open>except\<close> branch only. The 400 of line 313 is
  returned from inside the \<^verbatim>\<open>try\<close>, after lines 290 to 306 have assigned to the task:
  the persisted rows are unchanged, and the task of the session keeps the new title,
  status and completion time.
\<close>

theorem update_task_invalid_due_date_keeps_pending_changes:
  "clean sample_state \<and>
   update_task sample_env 1
     [(''title'', JStr ''Renamed''), (''status'', JStr ''completed''),
      (''due_date'', JStr ''next week'')]
     sample_state =
     ((400, Error ''Invalid due_date format. Use ISO format.'' []),
      \<lparr>committed = sample_store,
       session =
         sample_store\<lparr>task_rows :=
           [write_docs\<lparr>title := JStr ''Renamed'', status := COMPLETED,
              completed_at := Some 1000\<rparr>]\<rparr>\<rparr>)"
  by (simp add: task_handler_defs validation_defs store_defs fixture_defs clean_def)

section \<open>Creating a task for an unknown user\<close>

text \<open>
  Claim C9: a create-task request that passes field validation but whose \<^verbatim>\<open>user_id\<close>
  references no existing user fails with 404, not 400, and no task is created: the
  state is returned as it was.
\<close>

theorem create_task_unknown_user:
  assumes valid: "validate_task_data data [''title'', ''user_id''] = Inr []"
      and key: "map_of data ''user_id'' = Some (JInt i)"
      and none: "get_user_row (session st) i = None"
  shows "create_task env data st = ((404, Error ''User not found'' []), st)"
proof -
  from key have "data \<noteq> []" by auto
  moreover from key none
  have "find_owner env data (session st) = Return (404, Error ''User not found'' [])"
    by (simp add: find_owner_def item_def key_ident_def)
  ultimately show ?thesis using valid
    by (simp add: create_task_def create_task_body_def except_rollback_def)
qed


theorem create_task_unknown_user_witness:
  "validate_task_data [(''title'', JStr ''Orphan''), (''user_id'', JInt 99)]
     [''title'', ''user_id''] = Inr [] \<and>
   map_of [(''title'', JStr ''Orphan''), (''user_id'', JInt 99)] ''user_id'' = Some (JInt 99) \<and>
   get_user_row (session sample_state) 99 = None \<and>
   create_task sample_env [(''title'', JStr ''Orphan''), (''user_id'', JInt 99)] sample_state =
     ((404, Error ''User not found'' []), sample_state)"
proof -
  have valid: "validate_task_data [(''title'', JStr ''Orphan''), (''user_id'', JInt 99)]
     [''title'', ''user_id''] = Inr []"
    by (simp add: validation_defs)
  have key: "map_of [(''title'', JStr ''Orphan''), (''user_id'', JInt 99)] ''user_id'' = Some (JInt 99)"
    by simp
  have none: "get_user_row (session sample_state) 99 = None"
    by (simp add: store_defs fixture_defs)
  from create_task_unknown_user [OF valid key none, of sample_env] valid key none
  show ?thesis by simp
qed

section \<open>Task listings\<close>



lemma web_filter_status_depends:
  "a ''status'' = b ''status'' \<Longrightarrow> web_filter_status a = web_filter_status b"
  by (simp add: web_filter_status_def fun_eq_iff)

lemma web_filter_priority_depends:
  "a ''priority'' = b ''priority'' \<Longrightarrow> web_filter_priority a = web_filter_priority b"
  by (simp add: web_filter_priority_def fun_eq_iff)

lemma filter_user_depends:
  "arg_int a ''user_id'' = arg_int b ''user_id'' \<Longrightarrow> filter_user a = filter_user b"
  by (simp add: filter_user_def fun_eq_iff)

lemma arg_int_default_depends:
  "a key = b key \<Longrightarrow> arg_int_default a key d = arg_int_default b key d"
  by (simp add: arg_int_default_def arg_int_def)












subsection \<open>Pagination\<close>









lemma TaskStatus_of_invalid:
  "s \<notin> set valid_statuses \<Longrightarrow> TaskStatus_of (JStr s) = Inl ValueError"
  by (auto simp: valid_statuses_def TaskStatus_of_def)


lemma TaskPriority_of_invalid:
  "s \<notin> set valid_priorities \<Longrightarrow> TaskPriority_of (JStr s) = Inl ValueError"
  by (auto simp: valid_priorities_def TaskPriority_of_def)










subsection \<open>Invalid filters\<close>

lemma filter_status_bad:
  assumes "bad_filter a ''status'' valid_statuses"
  shows "\<exists>s. filter_status a q = Return (400, Error (''Invalid status: '' @ s) [])"
proof -
  from assms obtain s where s: "a ''status'' = Some s" "s \<noteq> []" "s \<notin> set valid_statuses"
    by (auto simp: bad_filter_def split: option.splits if_splits)
  then show ?thesis by (simp add: filter_status_def TaskStatus_of_invalid)
qed

lemma filter_priority_bad:
  assumes "bad_filter a ''priority'' valid_priorities"
  shows "\<exists>s. filter_priority a q = Return (400, Error (''Invalid priority: '' @ s) [])"
proof -
  from assms obtain s where s: "a ''priority'' = Some s" "s \<noteq> []" "s \<notin> set valid_priorities"
    by (auto simp: bad_filter_def split: option.splits if_splits)
  then show ?thesis by (simp add: filter_priority_def TaskPriority_of_invalid)
qed

lemma filter_status_cases:
  "(\<exists>q1. filter_status a q = Next q1) \<or> (\<exists>msg. filter_status a q = Return (400, Error msg []))"
  by (auto simp: filter_status_def split: option.splits sum.splits)

lemma filtered_page_bad:
  assumes "bad_filter a ''status'' valid_statuses \<or> bad_filter a ''priority'' valid_priorities"
  shows "\<exists>msg. filtered_page a q = Return (400, Error msg [])"
proof (cases "bad_filter a ''status'' valid_statuses")
  case True
  from filter_status_bad [OF this, of q] show ?thesis
    by (auto simp: filtered_page_def Let_def)
next
  case False
  with assms have bad: "bad_filter a ''priority'' valid_priorities" by simp
  from filter_status_cases [of a q] show ?thesis
  proof
    assume "\<exists>q1. filter_status a q = Next q1"
    then obtain q1 where q1: "filter_status a q = Next q1" ..
    from filter_priority_bad [OF bad, of q1] q1 show ?thesis
      by (auto simp: filtered_page_def Let_def)
  next
    assume "\<exists>msg. filter_status a q = Return (400, Error msg [])"
    then show ?thesis by (auto simp: filtered_page_def Let_def)
  qed
qed

lemma web_filter_status_bad:
  assumes "bad_filter a ''status'' valid_statuses"
  shows "web_filter_status a q = ([''Invalid status filter''], q)"
proof -
  from assms obtain s where s: "a ''status'' = Some s" "s \<noteq> []" "s \<notin> set valid_statuses"
    by (auto simp: bad_filter_def split: option.splits if_splits)
  then show ?thesis by (simp add: web_filter_status_def TaskStatus_of_invalid)
qed

lemma web_filter_priority_bad:
  assumes "bad_filter a ''priority'' valid_priorities"
  shows "web_filter_priority a q = ([''Invalid priority filter''], q)"
proof -
  from assms obtain s where s: "a ''priority'' = Some s" "s \<noteq> []" "s \<notin> set valid_priorities"
    by (auto simp: bad_filter_def split: option.splits if_splits)
  then show ?thesis by (simp add: web_filter_priority_def TaskPriority_of_invalid)
qed

lemma web_filter_status_none: "web_filter_status (a(''status'' := None)) q = ([], q)"
  by (simp add: web_filter_status_def)

lemma web_filter_priority_none: "web_filter_priority (a(''priority'' := None)) q = ([], q)"
  by (simp add: web_filter_priority_def)

text \<open>Adding a flashed message to what the view hands over, before or after the others.\<close>

lemma tasks_bad_status:
  assumes "bad_filter a ''status'' valid_statuses"
  shows "tasks a st =
     map_sum id (\<lambda>v. v\<lparr>flashed := ''Invalid status filter'' # flashed v\<rparr>)
       (tasks (a(''status'' := None)) st)"
proof -
  have p: "web_filter_priority (a(''status'' := None)) = web_filter_priority a"
    by (rule web_filter_priority_depends) simp
  have u: "filter_user (a(''status'' := None)) = filter_user a"
    by (rule filter_user_depends) (simp add: arg_int_def)
  have g: "arg_int_default (a(''status'' := None)) ''page'' 1 = arg_int_default a ''page'' 1"
    by (rule arg_int_default_depends) simp
  show ?thesis
    by (simp add: tasks_def Let_def web_filter_status_bad [OF assms] web_filter_status_none p u g
        split: prod.splits sum.splits)
qed

lemma tasks_bad_priority:
  assumes "bad_filter a ''priority'' valid_priorities"
  shows "tasks a st =
     map_sum id (\<lambda>v. v\<lparr>flashed := flashed v @ [''Invalid priority filter'']\<rparr>)
       (tasks (a(''priority'' := None)) st)"
proof -
  have p: "web_filter_status (a(''priority'' := None)) = web_filter_status a"
    by (rule web_filter_status_depends) simp
  have u: "filter_user (a(''priority'' := None)) = filter_user a"
    by (rule filter_user_depends) (simp add: arg_int_def)
  have g: "arg_int_default (a(''priority'' := None)) ''page'' 1 = arg_int_default a ''page'' 1"
    by (rule arg_int_default_depends) simp
  show ?thesis
    by (simp add: tasks_def Let_def web_filter_priority_bad [OF assms] web_filter_priority_none p u g
        split: prod.splits sum.splits)
qed

text \<open>
  Claim C3: in every task listing, the JSON API and the dashboard alike, a status or
  priority filter string that is not a recognised enum value yields a 400-class error
  and never a result set.

  As stated it fails twice. The dashboard catches the \<^verbatim>\<open>ValueError\<close>, flashes a message
  and lists the tasks without that filter (web_routes.py, lines 37, 38, 46 and 47); and
  everywhere the empty string, which is no enum value, is taken for no filter
  (\<^verbatim>\<open>if status:\<close>).
\<close>

theorem web_tasks_invalid_filter_lists_tasks:
  "''bogus'' \<notin> set valid_statuses \<and>
   tasks [''status'' \<mapsto> ''bogus''] sample_state =
     Inr \<lparr>flashed = [''Invalid status filter''], view_items = [write_docs],
          view_pagination = \<lparr>pg_page = 1, pg_per_page = 10, pg_total = 1, pg_pages = 1\<rparr>\<rparr> \<and>
   [] \<notin> set valid_statuses \<and>
   get_tasks [''status'' \<mapsto> []] sample_state =
     (200, TaskPage [write_docs] \<lparr>pg_page = 1, pg_per_page = 10, pg_total = 1, pg_pages = 1\<rparr>)"
  by (simp add: listing_defs parse_defs fixture_defs)

text \<open>
  Claim C3 as amended: in the JSON listings \<^verbatim>\<open>get_tasks\<close> and \<^verbatim>\<open>get_user_tasks\<close> (of an
  existing user), a status or priority filter string that is not empty and not a
  recognised enum value yields a 400 error and no result set. The dashboard's \<^verbatim>\<open>tasks\<close>
  answers such a filter with what it answers without that parameter, plus a flashed
  error message on the listing.
\<close>

theorem invalid_filter_api_rejects_web_flashes:
  "(bad_filter a ''status'' valid_statuses \<or> bad_filter a ''priority'' valid_priorities \<longrightarrow>
      (\<exists>msg. get_tasks a st = (400, Error msg [])) \<and>
      (get_user_row (session st) uid = Some u \<longrightarrow>
         (\<exists>msg. get_user_tasks uid a st = (400, Error msg [])))) \<and>
   (bad_filter a ''status'' valid_statuses \<longrightarrow>
      tasks a st =
        map_sum id (\<lambda>v. v\<lparr>flashed := ''Invalid status filter'' # flashed v\<rparr>)
          (tasks (a(''status'' := None)) st)) \<and>
   (bad_filter a ''priority'' valid_priorities \<longrightarrow>
      tasks a st =
        map_sum id (\<lambda>v. v\<lparr>flashed := flashed v @ [''Invalid priority filter'']\<rparr>)
          (tasks (a(''priority'' := None)) st))"
proof (intro conjI impI)
  assume bad: "bad_filter a ''status'' valid_statuses \<or> bad_filter a ''priority'' valid_priorities"
  from filtered_page_bad [OF bad, of "filter_user a (task_rows (session st))"]
  show "\<exists>msg. get_tasks a st = (400, Error msg [])"
    by (auto simp: get_tasks_def)
  assume "get_user_row (session st) uid = Some u"
  with filtered_page_bad [OF bad, of "filter (\<lambda>t. user_id t = uid) (task_rows (session st))"]
  show "\<exists>msg. get_user_tasks uid a st = (400, Error msg [])"
    by (auto simp: get_user_tasks_def)
qed (rule tasks_bad_status tasks_bad_priority, assumption)+


theorem invalid_filter_api_rejects_web_flashes_witness:
  "bad_filter [''status'' \<mapsto> ''bogus'', ''priority'' \<mapsto> ''urgent''] ''status'' valid_statuses \<and>
   bad_filter [''status'' \<mapsto> ''bogus'', ''priority'' \<mapsto> ''urgent''] ''priority'' valid_priorities \<and>
   get_user_row (session sample_state) 1 = Some alice \<and>
   (\<exists>msg. get_tasks [''status'' \<mapsto> ''bogus'', ''priority'' \<mapsto> ''urgent''] sample_state =
      (400, Error msg [])) \<and>
   (\<exists>msg. get_user_tasks 1 [''status'' \<mapsto> ''bogus'', ''priority'' \<mapsto> ''urgent''] sample_state =
      (400, Error msg [])) \<and>
   tasks [''status'' \<mapsto> ''bogus'', ''priority'' \<mapsto> ''urgent''] sample_state =
     map_sum id (\<lambda>v. v\<lparr>flashed := ''Invalid status filter'' # flashed v\<rparr>)
       (tasks ([''status'' \<mapsto> ''bogus'', ''priority'' \<mapsto> ''urgent''](''status'' := None))
          sample_state) \<and>
   tasks [''status'' \<mapsto> ''bogus'', ''priority'' \<mapsto> ''urgent''] sample_state =
     map_sum id (\<lambda>v. v\<lparr>flashed := flashed v @ [''Invalid priority filter'']\<rparr>)
       (tasks ([''status'' \<mapsto> ''bogus'', ''priority'' \<mapsto> ''urgent''](''priority'' := None))
          sample_state) \<and>
   tasks [''status'' \<mapsto> ''bogus'', ''priority'' \<mapsto> ''urgent''] sample_state =
     Inr \<lparr>flashed = [''Invalid status filter'', ''Invalid priority filter''],
          view_items = [write_docs],
          view_pagination = \<lparr>pg_page = 1, pg_per_page = 10, pg_total = 1, pg_pages = 1\<rparr>\<rparr>"
proof -
  have b1: "bad_filter [''status'' \<mapsto> ''bogus'', ''priority'' \<mapsto> ''urgent''] ''status''
      valid_statuses"
    by (simp add: bad_filter_def valid_statuses_def)
  have b2: "bad_filter [''status'' \<mapsto> ''bogus'', ''priority'' \<mapsto> ''urgent''] ''priority''
      valid_priorities"
    by (simp add: bad_filter_def valid_priorities_def)
  have row: "get_user_row (session sample_state) 1 = Some alice"
    by (simp add: store_defs fixture_defs)
  have run: "tasks [''status'' \<mapsto> ''bogus'', ''priority'' \<mapsto> ''urgent''] sample_state =
     Inr \<lparr>flashed = [''Invalid status filter'', ''Invalid priority filter''],
          view_items = [write_docs],
          view_pagination = \<lparr>pg_page = 1, pg_per_page = 10, pg_total = 1, pg_pages = 1\<rparr>\<rparr>"
    by (simp add: listing_defs parse_defs fixture_defs)
  from invalid_filter_api_rejects_web_flashes
    [of "[''status'' \<mapsto> ''bogus'', ''priority'' \<mapsto> ''urgent'']" sample_state 1 alice]
    b1 b2 row run
  show ?thesis by blast
qed

section \<open>Uniqueness on update\<close>

lemma find_user_row:
  "find (\<lambda>r. user_ident r = i) xs = Some u \<Longrightarrow> user_ident u = i \<and> u \<in> set xs"
  by (induction xs) (auto split: if_splits)

lemma get_user_row_Some:
  "get_user_row s i = Some u \<Longrightarrow> user_ident u = i \<and> u \<in> set (user_rows s)"
  unfolding get_user_row_def by (rule find_user_row)

lemma update_username_own:
  "own_or_absent data ''username'' (username u) \<Longrightarrow> update_username data u s = Next u"
  by (simp add: own_or_absent_def update_username_def split: option.splits)

lemma update_email_own:
  "own_or_absent data ''email'' (email u) \<Longrightarrow> update_email data u s = Next u"
  by (simp add: own_or_absent_def update_email_def split: option.splits)

lemma task_rows_put_user: "task_rows (put_user u s) = task_rows s"
  by (simp add: put_user_def)

lemma update_user_rest_ok:
  assumes "password_ok data"
  shows "\<exists>u3. update_user_rest env data u = Inr u3 \<and> username u3 = username u \<and>
           email u3 = email u"
proof (cases "present data ''password''")
  case None
  then show ?thesis by (simp add: update_user_rest_def Let_def split: option.splits)
next
  case (Some v)
  with assms obtain pw where "v = JStr pw"
    by (cases v) (simp_all add: password_ok_def)
  with Some show ?thesis
    by (simp add: update_user_rest_def set_password_def Let_def split: option.splits)
qed

lemma own_values_no_conflict:
  assumes row: "get_user_row (session st) uid = Some u"
    and own: "own_or_absent data ''username'' (username u)" "own_or_absent data ''email'' (email u)"
  shows "fst (fst (update_user env uid data st)) \<noteq> 409"
proof -
  show ?thesis
    by (simp add: update_user_def update_user_body_def except_rollback_def Let_def row
        update_username_own [OF own(1)] update_email_own [OF own(2)] 
        split: sum.splits)
qed

lemma own_values_succeed:
  assumes row: "get_user_row (session st) uid = Some u"
    and wf: "well_formed (session st)"
    and own: "own_or_absent data ''username'' (username u)" "own_or_absent data ''email'' (email u)"
    and ne: "data \<noteq> []" and valid: "validate_user_data data [] = Inr []"
    and pw: "password_ok data"
  shows "\<exists>u'. fst (update_user env uid data st) = (200, UserJson u') \<and>
           username u' = username u \<and> email u' = email u"
proof -
  from update_user_rest_ok [OF pw, of env u] obtain u3 where
    u3: "update_user_rest env data u = Inr u3" "username u3 = username u" "email u3 = email u"
    by blast
  from u3 show ?thesis
    by (simp add: update_user_def update_user_body_def except_rollback_def Let_def row ne valid
        update_username_own [OF own(1)] update_email_own [OF own(2)])
qed

lemma find_None_iff_all: "find P xs = None \<longleftrightarrow> \<not> list_ex P xs"
  by (induction xs) auto

lemma other_username_differs:
  assumes "well_formed s" and "get_user_row s uid = Some u"
    and "r \<in> set (user_rows s)" and "user_ident r \<noteq> uid"
  shows "username r \<noteq> username u" and "email r \<noteq> email u"
proof -
  from assms(2) have u: "user_ident u = uid" "u \<in> set (user_rows s)"
    by (simp_all add: get_user_row_Some)
  with assms(4) have neq: "r \<noteq> u" by auto
  from assms(1) have "inj_on username (set (user_rows s))" "inj_on email (set (user_rows s))"
    by (simp_all add: well_formed_def distinct_map)
  with neq assms(3) u(2) show "username r \<noteq> username u" and "email r \<noteq> email u"
    by (auto dest: inj_onD)
qed

lemma username_collision:
  assumes wf: "well_formed s" and row: "get_user_row s uid = Some u"
    and taken: "taken_by_other username data ''username'' uid s"
  shows "update_username data u s = Return (409, Error ''Username already exists'' [])"
proof -
  from taken obtain x r where x: "map_of data ''username'' = Some (JStr x)"
    and r: "r \<in> set (user_rows s)" "user_ident r \<noteq> uid" "username r = x"
    by (auto simp: taken_by_other_def list_ex_iff split: option.splits jval.splits)
  from other_username_differs(1) [OF wf row r(1,2)] r(3) have "x \<noteq> username u" by simp
  moreover from r have "list_ex (\<lambda>r. username r = x) (user_rows s)"
    by (auto simp: list_ex_iff)
  then have "find (\<lambda>r. username r = x) (user_rows s) \<noteq> None"
    by (simp add: find_None_iff_all)
  ultimately show ?thesis using x
    by (auto simp: update_username_def filter_by_text_def)
qed

lemma email_collision:
  assumes wf: "well_formed s" and row: "get_user_row s uid = Some u"
    and taken: "taken_by_other email data ''email'' uid s"
    and u1: "user_ident u1 = uid" "email u1 = email u"
  shows "update_email data u1 (put_user u1 s) = Return (409, Error ''Email already exists'' [])"
proof -
  from taken obtain x r where x: "map_of data ''email'' = Some (JStr x)"
    and r: "r \<in> set (user_rows s)" "user_ident r \<noteq> uid" "email r = x"
    by (auto simp: taken_by_other_def list_ex_iff split: option.splits jval.splits)
  from other_username_differs(2) [OF wf row r(1,2)] r(3) u1 have "x \<noteq> email u1" by simp
  moreover from r u1 have "r \<in> set (user_rows (put_user u1 s))"
    by (auto simp: put_user_def image_iff intro!: bexI [of _ r])
  with r have "list_ex (\<lambda>r. email r = x) (user_rows (put_user u1 s))"
    by (auto simp: list_ex_iff)
  then have "find (\<lambda>r. email r = x) (user_rows (put_user u1 s)) \<noteq> None"
    by (simp add: find_None_iff_all)
  ultimately show ?thesis using x
    by (auto simp: update_email_def filter_by_text_def)
qed

lemma update_username_text:
  assumes "text_or_absent data ''username''"
  shows "(\<exists>u1. update_username data u s = Next u1 \<and> user_ident u1 = user_ident u \<and>
            email u1 = email u) \<or>
         update_username data u s = Return (409, Error ''Username already exists'' [])"
proof (cases "map_of data ''username''")
  case None
  then show ?thesis by (simp add: update_username_def)
next
  case (Some v)
  with assms obtain x where "v = JStr x"
    by (cases v) (simp_all add: text_or_absent_def)
  with Some show ?thesis
    by (auto simp: update_username_def filter_by_text_def split: option.splits)
qed

lemma collision_conflict:
  assumes row: "get_user_row (session st) uid = Some u"
    and wf: "well_formed (session st)"
    and valid: "validate_user_data data [] = Inr []"
    and str: "text_or_absent data ''username''"
    and taken: "taken_by_other username data ''username'' uid (session st) \<or>
                taken_by_other email data ''email'' uid (session st)"
  shows "fst (fst (update_user env uid data st)) = 409"
proof -
  from taken have ne: "data \<noteq> []" by (auto simp: taken_by_other_def)
  from update_username_text [OF str, of u "session st"] show ?thesis
  proof
    assume "update_username data u (session st) = Return (409, Error ''Username already exists'' [])"
    then show ?thesis
      by (simp add: update_user_def update_user_body_def except_rollback_def row ne valid)
  next
    assume "\<exists>u1. update_username data u (session st) = Next u1 \<and>
              user_ident u1 = user_ident u \<and> email u1 = email u"
    then obtain u1 where u1: "update_username data u (session st) = Next u1"
      "user_ident u1 = user_ident u" "email u1 = email u" by blast
    from row have "user_ident u = uid" by (simp add: get_user_row_Some)
    with u1 have id1: "user_ident u1 = uid" by simp
    from u1(1) have "\<not> taken_by_other username data ''username'' uid (session st)"
      using username_collision [OF wf row] by auto
    with taken have "taken_by_other email data ''email'' uid (session st)" by simp
    from email_collision [OF wf row this id1 u1(3)] u1(1) show ?thesis
      by (simp add: update_user_def update_user_body_def except_rollback_def Let_def row ne valid)
  qed
qed

text \<open>
  Claim C8: for an existing user, an update-user request that supplies the user's own
  current username and/or email succeeds without a conflict error, while one that
  supplies a username or email equal (exactly, case-sensitively) to the value of a
  different existing user returns a conflict.

  In a well-formed store, for the user \<open>u\<close> with identity \<open>uid\<close>: a payload whose
  username and email, where given, are the user's own never gets 409, and gets 200 with
  both values kept when it passes validation and its password, if any, is a string; a
  payload that passes validation, whose username (if given) is a string and whose
  username or email is held by another user's row gets 409.
\<close>

theorem update_user_own_values_and_collisions:
  assumes row: "get_user_row (session st) uid = Some u"
    and wf: "well_formed (session st)"
  shows
   "(own_or_absent data ''username'' (username u) \<and> own_or_absent data ''email'' (email u) \<longrightarrow>
       fst (fst (update_user env uid data st)) \<noteq> 409) \<and>
    (own_or_absent data ''username'' (username u) \<and> own_or_absent data ''email'' (email u) \<and>
     data \<noteq> [] \<and> validate_user_data data [] = Inr [] \<and> password_ok data \<longrightarrow>
       (\<exists>u'. fst (update_user env uid data st) = (200, UserJson u') \<and>
          username u' = username u \<and> email u' = email u)) \<and>
    (validate_user_data data [] = Inr [] \<and> text_or_absent data ''username'' \<and>
     (taken_by_other username data ''username'' uid (session st) \<or>
      taken_by_other email data ''email'' uid (session st)) \<longrightarrow>
       fst (fst (update_user env uid data st)) = 409)"
  using own_values_no_conflict [OF row] own_values_succeed [OF row wf]
    collision_conflict [OF row wf]
  by blast


theorem update_user_own_values_and_collisions_witness:
  "get_user_row (session sample_state) 1 = Some alice \<and>
   well_formed (session sample_state) \<and>
   own_or_absent [(''username'', JStr ''alice''), (''email'', JStr ''alice@example.com'')]
     ''username'' (username alice) \<and>
   own_or_absent [(''username'', JStr ''alice''), (''email'', JStr ''alice@example.com'')]
     ''email'' (email alice) \<and>
   [(''username'', JStr ''alice''), (''email'', JStr ''alice@example.com'')] \<noteq> [] \<and>
   validate_user_data [(''username'', JStr ''alice''), (''email'', JStr ''alice@example.com'')] []
     = Inr [] \<and>
   password_ok [(''username'', JStr ''alice''), (''email'', JStr ''alice@example.com'')] \<and>
   fst (fst (update_user sample_env 1
     [(''username'', JStr ''alice''), (''email'', JStr ''alice@example.com'')] sample_state))
     \<noteq> 409 \<and>
   (\<exists>u'. fst (update_user sample_env 1
            [(''username'', JStr ''alice''), (''email'', JStr ''alice@example.com'')]
            sample_state) = (200, UserJson u') \<and>
         username u' = username alice \<and> email u' = email alice) \<and>
   validate_user_data [(''email'', JStr ''bob@example.com'')] [] = Inr [] \<and>
   text_or_absent [(''email'', JStr ''bob@example.com'')] ''username'' \<and>
   taken_by_other email [(''email'', JStr ''bob@example.com'')] ''email'' 1
     (session sample_state) \<and>
   fst (fst (update_user sample_env 1 [(''email'', JStr ''bob@example.com'')] sample_state))
     = 409"
proof -
  let ?own = "[(''username'', JStr ''alice''), (''email'', JStr ''alice@example.com'')]"
  let ?taken = "[(''email'', JStr ''bob@example.com'')]"
  have row: "get_user_row (session sample_state) 1 = Some alice"
    by (simp add: store_defs fixture_defs)
  have wf: "well_formed (session sample_state)"
    by (simp add: well_formed_def store_defs fixture_defs)
  have own: "own_or_absent ?own ''username'' (username alice)"
    "own_or_absent ?own ''email'' (email alice)"
    by (simp_all add: own_or_absent_def fixture_defs)
  have ne: "?own \<noteq> []" by simp
  have valid: "validate_user_data ?own [] = Inr []"
    by (simp add: validation_defs email_defs)
  have pw: "password_ok ?own"
    by (simp add: password_ok_def present_def)
  have valid2: "validate_user_data ?taken [] = Inr []"
    by (simp add: validation_defs email_defs)
  have str: "text_or_absent ?taken ''username''"
    by (simp add: text_or_absent_def)
  have taken: "taken_by_other email ?taken ''email'' 1 (session sample_state)"
    by (simp add: taken_by_other_def fixture_defs)
  from update_user_own_values_and_collisions [OF row wf, of ?own sample_env]
    update_user_own_values_and_collisions [OF row wf, of ?taken sample_env]
    row wf own ne valid pw valid2 str taken
  show ?thesis by blast
qed

end
